theory Spec2Isabelle
  imports Main
begin

section \<open>Time and durations\<close>

text \<open>
  A \<open>time.Time\<close> is modelled as the number of nanoseconds since the Unix epoch and a
  \<open>time.Duration\<close> as a number of nanoseconds, both as unbounded integers.
  \<open>Unix\<close> is \<open>Time.Unix()\<close>: whole seconds since the epoch, as an \<open>int64\<close>. For every
  instant whose second count fits 64 bits that is the floor of the instant divided by a
  second; the model wraps any other count into the 64-bit range, as 64-bit arithmetic
  does. Every call of \<open>time.Now()\<close> is a reading of its own: a function that reads the
  clock takes its reading as the argument \<open>now\<close>.
\<close>

type_synonym time = int

definition Second :: int where
  "Second = 1000000000"

definition Minute :: int where
  "Minute = 60 * Second"

definition Hour :: int where
  "Hour = 60 * Minute"

definition in_int64 :: "int \<Rightarrow> bool" where
  "in_int64 n = (- 9223372036854775808 \<le> n \<and> n \<le> 9223372036854775807)"

definition Unix :: "time \<Rightarrow> int" where
  "Unix t = (t div Second + 9223372036854775808) mod 18446744073709551616
              - 9223372036854775808"

definition After :: "time \<Rightarrow> time \<Rightarrow> bool" where
  "After t u = (u < t)"

definition DefaultSessionDuration :: int where
  "DefaultSessionDuration = 15 * Minute"

definition DefaultRefreshDuration :: int where
  "DefaultRefreshDuration = 7 * 24 * Hour"

definition DefaultResetTokenDuration :: int where
  "DefaultResetTokenDuration = 1 * Hour"

definition DefaultVerifyTokenDuration :: int where
  "DefaultVerifyTokenDuration = 24 * Hour"

section \<open>Errors\<close>

text \<open>
  Go's \<open>error\<close> values. The first eight constructors are the sentinel errors of package
  \<open>services\<close>, the next four the sentinel errors of package \<open>repositories\<close> (two of them
  print the same message as a service error but are different values, and the code
  compares errors with \<open>==\<close>). \<open>OtherError\<close> is any other error value (a library's, or a
  storage failure); \<open>Wrapped msg e\<close> is \<open>fmt.Errorf("msg: %w", e)\<close>.
\<close>

datatype error =
    ErrInvalidCredentials
  | ErrUserAlreadyExists
  | ErrUserNotFound
  | ErrUserNotVerified
  | ErrUserDisabled
  | ErrInvalidToken
  | ErrTokenExpired
  | ErrSessionNotFound
  | Repo_ErrUserNotFound
  | Repo_ErrSessionNotFound
  | Repo_ErrTokenNotFound
  | Repo_ErrTokenExpired
  | OtherError string
  | Wrapped string error

section \<open>Data model (package models)\<close>

record user =
  ID :: string
  Email :: string
  Name :: string
  IsVerified :: bool
  IsActive :: bool
  Roles :: "string list"
  CreatedAt :: time
  UpdatedAt :: time
  LastLoginAt :: "time option"

record session =
  ID :: string
  UserID :: string
  Token :: string
  DeviceID :: string
  UserAgent :: string
  IPAddress :: string
  CreatedAt :: time
  ExpiresAt :: time
  IsActive :: bool

record token_claims =
  UserID :: string
  Email :: string
  Name :: string
  Roles :: "string list"
  SessionID :: string
  IssuedAt :: int
  ExpiresAt :: int

record session_create_request =
  UserID :: string
  DeviceID :: string
  UserAgent :: string
  IPAddress :: string

definition TokenTypeAccess :: string where
  "TokenTypeAccess = ''access''"

definition TokenTypeRefresh :: string where
  "TokenTypeRefresh = ''refresh''"

definition RoleUser :: string where
  "RoleUser = ''user''"

definition SanitizeUser :: "user \<Rightarrow> user" where
  "SanitizeUser u =
     \<lparr>user.ID = user.ID u, Email = user.Email u, Name = user.Name u,
      IsVerified = IsVerified u, IsActive = user.IsActive u, Roles = user.Roles u,
      CreatedAt = user.CreatedAt u, UpdatedAt = UpdatedAt u, LastLoginAt = LastLoginAt u\<rparr>"

definition IsExpired :: "time \<Rightarrow> session \<Rightarrow> bool" where
  "IsExpired now s = After now (session.ExpiresAt s)"

section \<open>Signed tokens (github.com/golang-jwt/jwt/v5)\<close>

text \<open>
  A Go string that may hold a compact signed token is modelled symbolically: \<open>Encoded t\<close> is
  the string that decodes to the token \<open>t\<close> (its signing method, the key its signature was
  made with, and its claims, in the order they were written), \<open>Plain s\<close> is the string \<open>s\<close>
  when it is no such encoding. A claim value is a JSON string, number or array.
\<close>

datatype claim = CStr string | CNum int | CArr "claim list"

datatype signing_method = SigningMethodHMAC | SigningMethodOther

record jwt =
  Method :: signing_method
  SignedWith :: string
  Claims :: "(string \<times> claim) list"

datatype gostring = Plain string | Encoded jwt

record auth_response =
  AccessToken :: gostring
  RefreshToken :: gostring
  ExpiresIn :: int
  User :: user

text \<open>\<open>claims[k].(string)\<close> with the error discarded: the empty string unless a string.\<close>

definition str_claim :: "(string \<times> claim) list \<Rightarrow> string \<Rightarrow> string" where
  "str_claim cs k = (case map_of cs k of Some (CStr s) \<Rightarrow> s | _ \<Rightarrow> [])"

text \<open>\<open>claims[k].([]interface{})\<close> with the error discarded: nil unless an array.\<close>

definition arr_claim :: "(string \<times> claim) list \<Rightarrow> string \<Rightarrow> claim list" where
  "arr_claim cs k = (case map_of cs k of Some (CArr xs) \<Rightarrow> xs | _ \<Rightarrow> [])"

text \<open>
  The library's validation of the registered claims, as \<open>jwt.Parse\<close> runs it with no
  options: \<open>exp\<close>, when present, must be a number and the clock must be before it;
  \<open>nbf\<close>, when present, must be a number and the clock must not be before it. The
  library reads a number as a date in seconds: the number 0 counts as an absent claim,
  and a number beyond the 64-bit range comes out of the conversion as an instant in the far
  past, so that such an \<open>exp\<close> has passed and such an \<open>nbf\<close> has been reached. Numbers are
  held as integers; the decoder's rounding of a number beyond 53 bits is not modelled.
\<close>

definition exp_ok :: "(string \<times> claim) list \<Rightarrow> time \<Rightarrow> bool" where
  "exp_ok cs now = (case map_of cs ''exp'' of
       None \<Rightarrow> True
     | Some (CNum e) \<Rightarrow>
         if e = 0 then True
         else if in_int64 e then now < e * Second
         else False
     | Some _ \<Rightarrow> False)"

definition nbf_ok :: "(string \<times> claim) list \<Rightarrow> time \<Rightarrow> bool" where
  "nbf_ok cs now = (case map_of cs ''nbf'' of
       None \<Rightarrow> True
     | Some (CNum n) \<Rightarrow>
         if n = 0 then True
         else if in_int64 n then n * Second \<le> now
         else True
     | Some _ \<Rightarrow> False)"

text \<open>
  \<open>jwt.Parse(tokenString, keyFunc)\<close>: the string must decode, the key function must return
  a key, the signature must have been made with that key, and the registered claims must
  validate. The parsed token is returned only when all of that holds (its \<open>Valid\<close> flag is
  then set), otherwise an error.
\<close>

definition jwt_Parse :: "gostring \<Rightarrow> (jwt \<Rightarrow> error + string) \<Rightarrow> time \<Rightarrow> error + jwt" where
  "jwt_Parse tokenString keyFunc now =
     (case tokenString of
        Plain _ \<Rightarrow> Inl (OtherError ''token is malformed'')
      | Encoded t \<Rightarrow>
          (case keyFunc t of
             Inl e \<Rightarrow> Inl (Wrapped ''token is unverifiable'' e)
           | Inr k \<Rightarrow>
               if SignedWith t \<noteq> k then Inl (OtherError ''signature is invalid'')
               else if \<not> exp_ok (Claims t) now then Inl (OtherError ''token is expired'')
               else if \<not> nbf_ok (Claims t) now then Inl (OtherError ''token is not valid yet'')
               else Inr t))"

text \<open>
  \<open>jwt.NewWithClaims(jwt.SigningMethodHS256, claims).SignedString(key)\<close>: signing with an
  HMAC method and a byte-slice key.
\<close>

definition SignedString :: "(string \<times> claim) list \<Rightarrow> string \<Rightarrow> error + gostring" where
  "SignedString cs key = Inr (Encoded \<lparr>Method = SigningMethodHMAC, SignedWith = key, Claims = cs\<rparr>)"

section \<open>Configuration and the token codec of the service\<close>

record config =
  JWTSecret :: string

text \<open>The key function both call sites of \<open>jwt.Parse\<close> pass: HMAC only, the service secret.\<close>

definition keyFunc :: "config \<Rightarrow> jwt \<Rightarrow> error + string" where
  "keyFunc cfg t =
     (if Method t \<noteq> SigningMethodHMAC then Inl (OtherError ''unexpected signing method'')
      else Inr (JWTSecret cfg))"

definition generateAccessToken :: "config \<Rightarrow> time \<Rightarrow> user \<Rightarrow> string \<Rightarrow> error + gostring" where
  "generateAccessToken cfg now usr sessionID =
     (let expiresAt = now + DefaultSessionDuration;
          claims = \<lparr>token_claims.UserID = user.ID usr, Email = user.Email usr,
                    Name = user.Name usr, Roles = user.Roles usr, SessionID = sessionID,
                    IssuedAt = Unix now, ExpiresAt = Unix expiresAt\<rparr>
      in case SignedString
             [(''sub'', CStr (token_claims.UserID claims)),
              (''email'', CStr (token_claims.Email claims)),
              (''name'', CStr (token_claims.Name claims)),
              (''roles'', CArr (map CStr (token_claims.Roles claims))),
              (''session_id'', CStr (SessionID claims)),
              (''iat'', CNum (IssuedAt claims)),
              (''exp'', CNum (token_claims.ExpiresAt claims)),
              (''type'', CStr TokenTypeAccess)]
             (JWTSecret cfg) of
           Inl e \<Rightarrow> Inl (Wrapped ''failed to sign token'' e)
         | Inr tokenString \<Rightarrow> Inr tokenString)"

definition generateRefreshToken :: "config \<Rightarrow> time \<Rightarrow> string \<Rightarrow> string \<Rightarrow> error + gostring" where
  "generateRefreshToken cfg now userID sessionID =
     (let expiresAt = now + DefaultRefreshDuration
      in case SignedString
             [(''sub'', CStr userID),
              (''session_id'', CStr sessionID),
              (''iat'', CNum (Unix now)),
              (''exp'', CNum (Unix expiresAt)),
              (''type'', CStr TokenTypeRefresh)]
             (JWTSecret cfg) of
           Inl e \<Rightarrow> Inl (Wrapped ''failed to sign refresh token'' e)
         | Inr tokenString \<Rightarrow> Inr tokenString)"

definition parseRefreshToken :: "config \<Rightarrow> time \<Rightarrow> gostring \<Rightarrow> error + token_claims" where
  "parseRefreshToken cfg now tokenString =
     (case jwt_Parse tokenString (keyFunc cfg) now of
        Inl err \<Rightarrow> Inl err
      | Inr token \<Rightarrow>
          (let claims = Claims token;
               tokenType = str_claim claims ''type''
           in if tokenType \<noteq> TokenTypeRefresh then Inl ErrInvalidToken
              else
                (let userID = str_claim claims ''sub'';
                     sessionID = str_claim claims ''session_id''
                 in if userID = [] \<or> sessionID = [] then Inl ErrInvalidToken
                    else Inr \<lparr>token_claims.UserID = userID, Email = [], Name = [], Roles = [],
                              SessionID = sessionID, IssuedAt = 0, ExpiresAt = 0\<rparr>)))"

section \<open>Request middleware (package middleware)\<close>

text \<open>
  An API-gateway request. A header value is held as the list of its parts between single
  spaces, which is what \<open>strings.Split(authHeader, " ")\<close> returns; the empty list stands for
  the empty string, which is also what Go's map gives for a header that is absent. The body
  is typed by the request struct its handler decodes it into (see below).
\<close>

datatype 'a body = EmptyBody | NotJSON | JSONFor 'a | JSONIllTyped 'a

record 'a request =
  Headers :: "string \<Rightarrow> gostring list"
  Body :: "'a body"
  Path :: string

datatype payload =
    ErrorBody string
  | MessageBody string
  | AuthBody auth_response

record response =
  StatusCode :: nat
  RespBody :: payload

record user_claims =
  UserID :: string
  Email :: string
  Roles :: "string list"

text \<open>The request-scoped context: only the value stored under \<open>userClaimsKey\<close> is modelled.\<close>

record ctx =
  userClaimsKey :: "user_claims option"

definition WithUserClaims :: "ctx \<Rightarrow> user_claims \<Rightarrow> ctx" where
  "WithUserClaims c claims = c\<lparr>userClaimsKey := Some claims\<rparr>"

definition GetUserClaims :: "ctx \<Rightarrow> user_claims option" where
  "GetUserClaims c = userClaimsKey c"

fun convertRoles :: "claim list \<Rightarrow> string list" where
  "convertRoles [] = []"
| "convertRoles (CStr s # roles) = s # convertRoles roles"
| "convertRoles (_ # roles) = convertRoles roles"

definition StatusOK :: nat where "StatusOK = 200"
definition StatusCreated :: nat where "StatusCreated = 201"
definition StatusBadRequest :: nat where "StatusBadRequest = 400"
definition StatusUnauthorized :: nat where "StatusUnauthorized = 401"
definition StatusForbidden :: nat where "StatusForbidden = 403"
definition StatusNotFound :: nat where "StatusNotFound = 404"
definition StatusConflict :: nat where "StatusConflict = 409"
definition StatusInternalServerError :: nat where "StatusInternalServerError = 500"

text \<open>
  A handler takes the context, the request and the state of the two repositories and
  returns the response and the new state. \<open>AuthMiddleware\<close> wraps a handler. A token
  that \<open>jwt.Parse\<close> returns without error is valid and carries map claims, so the branch
  for a failing type assertion on the claims has no counterpart here. Log output is not
  modelled.
\<close>

definition AuthMiddleware ::
  "config \<Rightarrow> time \<Rightarrow> (ctx \<Rightarrow> 'a request \<Rightarrow> 'st \<Rightarrow> response \<times> 'st)
     \<Rightarrow> ctx \<Rightarrow> 'a request \<Rightarrow> 'st \<Rightarrow> response \<times> 'st" where
  "AuthMiddleware cfg now next c req st =
     (let authHeader = (if Headers req ''Authorization'' = [] then Headers req ''authorization''
                        else Headers req ''Authorization'')
      in if authHeader = [] then
           (\<lparr>StatusCode = StatusUnauthorized,
             RespBody = ErrorBody ''missing authorization header''\<rparr>, st)
         else
           (let tokenParts = authHeader
            in if length tokenParts \<noteq> 2 \<or> tokenParts ! 0 \<noteq> Plain ''Bearer'' then
                 (\<lparr>StatusCode = StatusUnauthorized,
                   RespBody = ErrorBody ''invalid authorization format''\<rparr>, st)
               else
                 (let tokenString = tokenParts ! 1
                  in case jwt_Parse tokenString (keyFunc cfg) now of
                       Inl err \<Rightarrow>
                         (\<lparr>StatusCode = StatusUnauthorized,
                           RespBody = ErrorBody ''invalid or expired token''\<rparr>, st)
                     | Inr token \<Rightarrow>
                         (let claims = Claims token;
                              userID = str_claim claims ''sub'';
                              email = str_claim claims ''email'';
                              roles = arr_claim claims ''roles''
                          in if userID = [] then
                               (\<lparr>StatusCode = StatusUnauthorized,
                                 RespBody = ErrorBody ''missing user ID in token''\<rparr>, st)
                             else
                               next (WithUserClaims c
                                       \<lparr>user_claims.UserID = userID, Email = email,
                                        Roles = convertRoles roles\<rparr>)
                                    req st))))"

section \<open>Repository interfaces (package repositories)\<close>

text \<open>
  The service reaches storage through two interfaces. An implementation is a record of
  operations over its own state: \<open>'u\<close> for the user repository, \<open>'s\<close> for the session
  repository. A read returns an error or a value and leaves the state as it is; a write
  returns an optional error and the state after it. Only the methods the service calls
  are listed.
\<close>

record 'u user_repo =
  CreateUser :: "'u \<Rightarrow> user \<Rightarrow> string \<Rightarrow> error option \<times> 'u"
  GetUser :: "'u \<Rightarrow> string \<Rightarrow> error + user"
  GetUserByEmail :: "'u \<Rightarrow> string \<Rightarrow> error + user"
  GetPasswordHash :: "'u \<Rightarrow> string \<Rightarrow> error + string"
  UpdatePassword :: "'u \<Rightarrow> string \<Rightarrow> string \<Rightarrow> error option \<times> 'u"
  UpdateLastLogin :: "'u \<Rightarrow> string \<Rightarrow> time \<Rightarrow> error option \<times> 'u"
  CreateEmailVerificationToken :: "'u \<Rightarrow> string \<Rightarrow> string \<Rightarrow> string \<Rightarrow> int \<Rightarrow> error option \<times> 'u"
  VerifyEmailToken :: "'u \<Rightarrow> string \<Rightarrow> error + string"
  MarkEmailTokenUsed :: "'u \<Rightarrow> string \<Rightarrow> error option \<times> 'u"
  MarkUserVerified :: "'u \<Rightarrow> string \<Rightarrow> error option \<times> 'u"
  CreatePasswordResetToken :: "'u \<Rightarrow> string \<Rightarrow> string \<Rightarrow> int \<Rightarrow> error option \<times> 'u"
  VerifyPasswordResetToken :: "'u \<Rightarrow> string \<Rightarrow> error + string"
  MarkPasswordResetTokenUsed :: "'u \<Rightarrow> string \<Rightarrow> error option \<times> 'u"

record 's session_repo =
  CreateSession :: "'s \<Rightarrow> session \<Rightarrow> error option \<times> 's"
  GetSession :: "'s \<Rightarrow> string \<Rightarrow> error + session"
  DeactivateSession :: "'s \<Rightarrow> string \<Rightarrow> error option \<times> 's"
  DeactivateUserSessions :: "'s \<Rightarrow> string \<Rightarrow> error option \<times> 's"

text \<open>The placeholder implementations of the source: no state, fixed answers.\<close>

definition MockUserRepository :: "unit user_repo" where
  "MockUserRepository =
     \<lparr>CreateUser = (\<lambda>r usr passwordHash. (None, r)),
      GetUser = (\<lambda>r userID. Inl Repo_ErrUserNotFound),
      GetUserByEmail = (\<lambda>r email. Inl Repo_ErrUserNotFound),
      GetPasswordHash = (\<lambda>r userID. Inl Repo_ErrUserNotFound),
      UpdatePassword = (\<lambda>r userID passwordHash. (None, r)),
      UpdateLastLogin = (\<lambda>r userID loginTime. (None, r)),
      CreateEmailVerificationToken = (\<lambda>r userID email token duration. (None, r)),
      VerifyEmailToken = (\<lambda>r token. Inl Repo_ErrTokenNotFound),
      MarkEmailTokenUsed = (\<lambda>r token. (None, r)),
      MarkUserVerified = (\<lambda>r userID. (None, r)),
      CreatePasswordResetToken = (\<lambda>r userID token duration. (None, r)),
      VerifyPasswordResetToken = (\<lambda>r token. Inl Repo_ErrTokenNotFound),
      MarkPasswordResetTokenUsed = (\<lambda>r token. (None, r))\<rparr>"

definition MockSessionRepository :: "unit session_repo" where
  "MockSessionRepository =
     \<lparr>CreateSession = (\<lambda>r sess. (None, r)),
      GetSession = (\<lambda>r sessionID. Inl Repo_ErrSessionNotFound),
      DeactivateSession = (\<lambda>r sessionID. (None, r)),
      DeactivateUserSessions = (\<lambda>r userID. (None, r))\<rparr>"

section \<open>The authentication service (package services)\<close>

text \<open>
  What an operation takes from outside the program: the clock, a fresh UUID string, the
  hex encoding of 32 bytes from the system's random source (or the error of reading it),
  and the two bcrypt functions. \<open>Now e k\<close> is what the call of \<open>time.Now()\<close> number \<open>k\<close>
  of the operation returns, counted from 0 in the order in which the operation, the
  helpers it calls and \<open>jwt.Parse\<close> make them.
\<close>

record env =
  Now :: "nat \<Rightarrow> time"
  NewUUID :: string
  RandHex :: "error + string"
  BcryptGenerate :: "string \<Rightarrow> error + string"
  BcryptCompare :: "string \<Rightarrow> string \<Rightarrow> error option"

record ('u, 's) auth_service =
  userRepo :: "'u user_repo"
  sessionRepo :: "'s session_repo"
  cfg :: config

record login_request =
  Email :: string
  Password :: string
  DeviceID :: string

record register_request =
  Email :: string
  Password :: string
  Name :: string

definition hashPassword :: "env \<Rightarrow> string \<Rightarrow> error + string" where
  "hashPassword e password = BcryptGenerate e password"

definition verifyPassword ::
  "('u, 's) auth_service \<Rightarrow> env \<Rightarrow> 'u \<Rightarrow> string \<Rightarrow> string \<Rightarrow> error option" where
  "verifyPassword s e us userID password =
     (case GetPasswordHash (userRepo s) us userID of
        Inl err \<Rightarrow> Some (Wrapped ''failed to get password hash'' err)
      | Inr passwordHash \<Rightarrow>
          (case BcryptCompare e passwordHash password of
             Some err \<Rightarrow> Some (Wrapped ''password verification failed'' err)
           | None \<Rightarrow> None))"

definition generateSecureToken :: "env \<Rightarrow> error + string" where
  "generateSecureToken e = RandHex e"

definition createSession ::
  "('u, 's) auth_service \<Rightarrow> env \<Rightarrow> time \<Rightarrow> 's \<Rightarrow> session_create_request
     \<Rightarrow> (error + session) \<times> 's" where
  "createSession s e now ss req =
     (let sessionID = NewUUID e;
          sess = \<lparr>session.ID = sessionID, UserID = session_create_request.UserID req,
                  Token = [], DeviceID = session_create_request.DeviceID req,
                  UserAgent = session_create_request.UserAgent req,
                  IPAddress = session_create_request.IPAddress req,
                  CreatedAt = now, ExpiresAt = now + DefaultRefreshDuration,
                  IsActive = True\<rparr>
      in case CreateSession (sessionRepo s) ss sess of
           (Some err, ss1) \<Rightarrow> (Inl (Wrapped ''failed to create session'' err), ss1)
         | (None, ss1) \<Rightarrow> (Inr sess, ss1))"

definition sendVerificationEmail ::
  "('u, 's) auth_service \<Rightarrow> env \<Rightarrow> 'u \<Rightarrow> user \<Rightarrow> error option \<times> 'u" where
  "sendVerificationEmail s e us usr =
     (case generateSecureToken e of
        Inl err \<Rightarrow> (Some (Wrapped ''failed to generate verification token'' err), us)
      | Inr verificationToken \<Rightarrow>
          (case CreateEmailVerificationToken (userRepo s) us (user.ID usr) (user.Email usr)
                  verificationToken DefaultVerifyTokenDuration of
             (Some err, us1) \<Rightarrow> (Some (Wrapped ''failed to store verification token'' err), us1)
           | (None, us1) \<Rightarrow> (None, us1)))"

definition sendPasswordResetEmail :: "user \<Rightarrow> string \<Rightarrow> error option" where
  "sendPasswordResetEmail usr resetToken = None"

definition AuthService_Login ::
  "('u, 's) auth_service \<Rightarrow> env \<Rightarrow> login_request \<Rightarrow> 'u \<times> 's
     \<Rightarrow> (error + auth_response) \<times> ('u \<times> 's)" where
  "AuthService_Login s e req st =
     (case st of (us, ss) \<Rightarrow>
        (case GetUserByEmail (userRepo s) us (login_request.Email req) of
           Inl err \<Rightarrow>
             if err = Repo_ErrUserNotFound then (Inl ErrInvalidCredentials, st)
             else (Inl (Wrapped ''failed to get user'' err), st)
         | Inr usr \<Rightarrow>
             if \<not> user.IsActive usr then (Inl ErrUserDisabled, st)
             else if \<not> IsVerified usr then (Inl ErrUserNotVerified, st)
             else
               (case verifyPassword s e us (user.ID usr) (login_request.Password req) of
                  Some err \<Rightarrow> (Inl ErrInvalidCredentials, st)
                | None \<Rightarrow>
                    (case createSession s e (Now e 0) ss
                            \<lparr>session_create_request.UserID = user.ID usr,
                             DeviceID = login_request.DeviceID req,
                             UserAgent = [], IPAddress = []\<rparr> of
                       (Inl err, ss1) \<Rightarrow>
                         (Inl (Wrapped ''failed to create session'' err), (us, ss1))
                     | (Inr sess, ss1) \<Rightarrow>
                         (case generateAccessToken (cfg s) (Now e 1) usr (session.ID sess) of
                            Inl err \<Rightarrow>
                              (Inl (Wrapped ''failed to generate access token'' err), (us, ss1))
                          | Inr accessToken \<Rightarrow>
                              (case generateRefreshToken (cfg s) (Now e 2) (user.ID usr)
                                      (session.ID sess) of
                                 Inl err \<Rightarrow>
                                   (Inl (Wrapped ''failed to generate refresh token'' err),
                                    (us, ss1))
                               | Inr refreshToken \<Rightarrow>
                                   (case UpdateLastLogin (userRepo s) us (user.ID usr) (Now e 3) of
                                      (_, us1) \<Rightarrow>
                                        (Inr \<lparr>AccessToken = accessToken,
                                              RefreshToken = refreshToken,
                                              ExpiresIn = DefaultSessionDuration div Second,
                                              User = SanitizeUser usr\<rparr>,
                                         (us1, ss1)))))))))"

definition AuthService_Register ::
  "('u, 's) auth_service \<Rightarrow> env \<Rightarrow> register_request \<Rightarrow> 'u \<times> 's
     \<Rightarrow> (error + user) \<times> ('u \<times> 's)" where
  "AuthService_Register s e req st =
     (case st of (us, ss) \<Rightarrow>
        (case GetUserByEmail (userRepo s) us (register_request.Email req) of
           Inr existingUser \<Rightarrow> (Inl ErrUserAlreadyExists, st)
         | Inl err \<Rightarrow>
             if err \<noteq> Repo_ErrUserNotFound then
               (Inl (Wrapped ''failed to check existing user'' err), st)
             else
               (case hashPassword e (register_request.Password req) of
                  Inl err \<Rightarrow> (Inl (Wrapped ''failed to hash password'' err), st)
                | Inr passwordHash \<Rightarrow>
                    (let userID = NewUUID e;
                         usr = \<lparr>user.ID = userID, Email = register_request.Email req,
                                Name = register_request.Name req, IsVerified = False,
                                IsActive = True, Roles = [RoleUser], CreatedAt = Now e 0,
                                UpdatedAt = Now e 1, LastLoginAt = None\<rparr>
                     in case CreateUser (userRepo s) us usr passwordHash of
                          (Some err, us1) \<Rightarrow>
                            (Inl (Wrapped ''failed to create user'' err), (us1, ss))
                        | (None, us1) \<Rightarrow>
                            (case sendVerificationEmail s e us1 usr of
                               (_, us2) \<Rightarrow> (Inr usr, (us2, ss)))))))"

definition AuthService_Logout ::
  "('u, 's) auth_service \<Rightarrow> string \<Rightarrow> string \<Rightarrow> 'u \<times> 's \<Rightarrow> error option \<times> ('u \<times> 's)" where
  "AuthService_Logout s userID sessionID st =
     (case st of (us, ss) \<Rightarrow>
        if sessionID \<noteq> [] then
          (case DeactivateSession (sessionRepo s) ss sessionID of
             (Some err, ss1) \<Rightarrow> (Some (Wrapped ''failed to deactivate session'' err), (us, ss1))
           | (None, ss1) \<Rightarrow> (None, (us, ss1)))
        else
          (case DeactivateUserSessions (sessionRepo s) ss userID of
             (Some err, ss1) \<Rightarrow>
               (Some (Wrapped ''failed to deactivate user sessions'' err), (us, ss1))
           | (None, ss1) \<Rightarrow> (None, (us, ss1))))"

definition AuthService_RefreshToken ::
  "('u, 's) auth_service \<Rightarrow> env \<Rightarrow> gostring \<Rightarrow> 'u \<times> 's
     \<Rightarrow> (error + auth_response) \<times> ('u \<times> 's)" where
  "AuthService_RefreshToken s e refreshToken st =
     (case st of (us, ss) \<Rightarrow>
        (case parseRefreshToken (cfg s) (Now e 0) refreshToken of
           Inl err \<Rightarrow> (Inl ErrInvalidToken, st)
         | Inr claims \<Rightarrow>
             (case GetUser (userRepo s) us (token_claims.UserID claims) of
                Inl err \<Rightarrow>
                  if err = Repo_ErrUserNotFound then (Inl ErrInvalidToken, st)
                  else (Inl (Wrapped ''failed to get user'' err), st)
              | Inr usr \<Rightarrow>
                  if \<not> user.IsActive usr then (Inl ErrUserDisabled, st)
                  else
                    (case GetSession (sessionRepo s) ss (SessionID claims) of
                       Inl err \<Rightarrow>
                         if err = Repo_ErrSessionNotFound then (Inl ErrInvalidToken, st)
                         else (Inl (Wrapped ''failed to get session'' err), st)
                     | Inr sess \<Rightarrow>
                         if \<not> session.IsActive sess \<or> IsExpired (Now e 1) sess then
                           (Inl ErrTokenExpired, st)
                         else
                           (case generateAccessToken (cfg s) (Now e 2) usr (session.ID sess) of
                              Inl err \<Rightarrow>
                                (Inl (Wrapped ''failed to generate access token'' err), st)
                            | Inr accessToken \<Rightarrow>
                                (case generateRefreshToken (cfg s) (Now e 3) (user.ID usr)
                                        (session.ID sess) of
                                   Inl err \<Rightarrow>
                                     (Inl (Wrapped ''failed to generate refresh token'' err), st)
                                 | Inr newRefreshToken \<Rightarrow>
                                     (Inr \<lparr>AccessToken = accessToken,
                                           RefreshToken = newRefreshToken,
                                           ExpiresIn = DefaultSessionDuration div Second,
                                           User = SanitizeUser usr\<rparr>, st)))))))"

definition AuthService_ForgotPassword ::
  "('u, 's) auth_service \<Rightarrow> env \<Rightarrow> string \<Rightarrow> 'u \<times> 's \<Rightarrow> error option \<times> ('u \<times> 's)" where
  "AuthService_ForgotPassword s e email st =
     (case st of (us, ss) \<Rightarrow>
        (case GetUserByEmail (userRepo s) us email of
           Inl err \<Rightarrow>
             if err = Repo_ErrUserNotFound then (None, st)
             else (Some (Wrapped ''failed to get user'' err), st)
         | Inr usr \<Rightarrow>
             (case generateSecureToken e of
                Inl err \<Rightarrow> (Some (Wrapped ''failed to generate reset token'' err), st)
              | Inr resetToken \<Rightarrow>
                  (case CreatePasswordResetToken (userRepo s) us (user.ID usr) resetToken
                          DefaultResetTokenDuration of
                     (Some err, us1) \<Rightarrow>
                       (Some (Wrapped ''failed to store reset token'' err), (us1, ss))
                   | (None, us1) \<Rightarrow>
                       (case sendPasswordResetEmail usr resetToken of
                          Some err \<Rightarrow>
                            (Some (Wrapped ''failed to send reset email'' err), (us1, ss))
                        | None \<Rightarrow> (None, (us1, ss)))))))"

definition AuthService_ResetPassword ::
  "('u, 's) auth_service \<Rightarrow> env \<Rightarrow> string \<Rightarrow> string \<Rightarrow> 'u \<times> 's
     \<Rightarrow> error option \<times> ('u \<times> 's)" where
  "AuthService_ResetPassword s e token newPassword st =
     (case st of (us, ss) \<Rightarrow>
        (case VerifyPasswordResetToken (userRepo s) us token of
           Inl err \<Rightarrow>
             if err = Repo_ErrTokenNotFound \<or> err = Repo_ErrTokenExpired then
               (Some ErrInvalidToken, st)
             else (Some (Wrapped ''failed to verify reset token'' err), st)
         | Inr userID \<Rightarrow>
             (case hashPassword e newPassword of
                Inl err \<Rightarrow> (Some (Wrapped ''failed to hash password'' err), st)
              | Inr passwordHash \<Rightarrow>
                  (case UpdatePassword (userRepo s) us userID passwordHash of
                     (Some err, us1) \<Rightarrow>
                       (Some (Wrapped ''failed to update password'' err), (us1, ss))
                   | (None, us1) \<Rightarrow>
                       (case MarkPasswordResetTokenUsed (userRepo s) us1 token of
                          (_, us2) \<Rightarrow>
                            (case DeactivateUserSessions (sessionRepo s) ss userID of
                               (_, ss1) \<Rightarrow> (None, (us2, ss1))))))))"

definition AuthService_ChangePassword ::
  "('u, 's) auth_service \<Rightarrow> env \<Rightarrow> string \<Rightarrow> string \<Rightarrow> string \<Rightarrow> 'u \<times> 's
     \<Rightarrow> error option \<times> ('u \<times> 's)" where
  "AuthService_ChangePassword s e userID currentPassword newPassword st =
     (case st of (us, ss) \<Rightarrow>
        (case verifyPassword s e us userID currentPassword of
           Some err \<Rightarrow> (Some ErrInvalidCredentials, st)
         | None \<Rightarrow>
             (case hashPassword e newPassword of
                Inl err \<Rightarrow> (Some (Wrapped ''failed to hash password'' err), st)
              | Inr passwordHash \<Rightarrow>
                  (case UpdatePassword (userRepo s) us userID passwordHash of
                     (Some err, us1) \<Rightarrow>
                       (Some (Wrapped ''failed to update password'' err), (us1, ss))
                   | (None, us1) \<Rightarrow> (None, (us1, ss))))))"

definition AuthService_VerifyEmail ::
  "('u, 's) auth_service \<Rightarrow> string \<Rightarrow> 'u \<times> 's \<Rightarrow> error option \<times> ('u \<times> 's)" where
  "AuthService_VerifyEmail s token st =
     (case st of (us, ss) \<Rightarrow>
        (case VerifyEmailToken (userRepo s) us token of
           Inl err \<Rightarrow>
             if err = Repo_ErrTokenNotFound \<or> err = Repo_ErrTokenExpired then
               (Some ErrInvalidToken, st)
             else (Some (Wrapped ''failed to verify email token'' err), st)
         | Inr userID \<Rightarrow>
             (case MarkUserVerified (userRepo s) us userID of
                (Some err, us1) \<Rightarrow>
                  (Some (Wrapped ''failed to mark user as verified'' err), (us1, ss))
              | (None, us1) \<Rightarrow>
                  (case MarkEmailTokenUsed (userRepo s) us1 token of
                     (_, us2) \<Rightarrow> (None, (us2, ss))))))"

definition AuthService_ResendVerification ::
  "('u, 's) auth_service \<Rightarrow> env \<Rightarrow> string \<Rightarrow> 'u \<times> 's \<Rightarrow> error option \<times> ('u \<times> 's)" where
  "AuthService_ResendVerification s e email st =
     (case st of (us, ss) \<Rightarrow>
        (case GetUserByEmail (userRepo s) us email of
           Inl err \<Rightarrow>
             if err = Repo_ErrUserNotFound then (None, st)
             else (Some (Wrapped ''failed to get user'' err), st)
         | Inr usr \<Rightarrow>
             if IsVerified usr then (None, st)
             else
               (case sendVerificationEmail s e us usr of
                  (Some err, us1) \<Rightarrow>
                    (Some (Wrapped ''failed to send verification email'' err), (us1, ss))
                | (None, us1) \<Rightarrow> (None, (us1, ss)))))"

definition AuthService_RevokeSession ::
  "('u, 's) auth_service \<Rightarrow> string \<Rightarrow> string \<Rightarrow> 'u \<times> 's \<Rightarrow> error option \<times> ('u \<times> 's)" where
  "AuthService_RevokeSession s userID sessionID st =
     (case st of (us, ss) \<Rightarrow>
        (case GetSession (sessionRepo s) ss sessionID of
           Inl err \<Rightarrow>
             if err = Repo_ErrSessionNotFound then (Some ErrSessionNotFound, st)
             else (Some (Wrapped ''failed to get session'' err), st)
         | Inr sess \<Rightarrow>
             if session.UserID sess \<noteq> userID then (Some ErrSessionNotFound, st)
             else
               (case DeactivateSession (sessionRepo s) ss sessionID of
                  (Some err, ss1) \<Rightarrow>
                    (Some (Wrapped ''failed to deactivate session'' err), (us, ss1))
                | (None, ss1) \<Rightarrow> (None, (us, ss1)))))"

section \<open>HTTP handlers (package handlers)\<close>

text \<open>
  \<open>json.Unmarshal([]byte(request.Body), &v)\<close> on a freshly declared \<open>v\<close>. The body is held
  by what decoding it into the handler's request struct gives: \<open>EmptyBody\<close> is the empty
  string and \<open>NotJSON\<close> a non-empty text that is not valid JSON (both are syntax errors,
  found before anything is stored, so \<open>v\<close> keeps its zero value); \<open>JSONFor r\<close> is a JSON
  text that decodes to \<open>r\<close>; \<open>JSONIllTyped r\<close> is valid JSON with a value of the wrong
  type somewhere, for which the decoder reports a type error after storing what it could,
  \<open>r\<close>.
\<close>

definition json_Unmarshal :: "'a body \<Rightarrow> 'a \<Rightarrow> error option \<times> 'a" where
  "json_Unmarshal b zero =
     (case b of
        EmptyBody \<Rightarrow> (Some (OtherError ''unexpected end of JSON input''), zero)
      | NotJSON \<Rightarrow> (Some (OtherError ''invalid character''), zero)
      | JSONFor r \<Rightarrow> (None, r)
      | JSONIllTyped r \<Rightarrow> (Some (OtherError ''cannot unmarshal''), r))"

record logout_request =
  SessionID :: string

record refresh_token_request =
  RefreshToken :: gostring

record forgot_password_request =
  Email :: string

record resend_verification_request =
  Email :: string

text \<open>
  The handlers hold the service and a struct validator (a third-party library object);
  the validator is taken as a function from the request struct to an optional error. The
  response body is held as the value that is marshalled; the validator's own message,
  which the source appends to \<open>validation failed\<close>, is left out.
\<close>

definition successResponse :: "nat \<Rightarrow> payload \<Rightarrow> response" where
  "successResponse statusCode data = \<lparr>StatusCode = statusCode, RespBody = data\<rparr>"

definition errorResponse :: "nat \<Rightarrow> string \<Rightarrow> response" where
  "errorResponse statusCode message = \<lparr>StatusCode = statusCode, RespBody = ErrorBody message\<rparr>"

definition AuthHandlers_Login ::
  "('u, 's) auth_service \<Rightarrow> (login_request \<Rightarrow> error option) \<Rightarrow> env
     \<Rightarrow> ctx \<Rightarrow> login_request request \<Rightarrow> 'u \<times> 's \<Rightarrow> response \<times> ('u \<times> 's)" where
  "AuthHandlers_Login authService validator e c request st =
     (case json_Unmarshal (Body request)
             \<lparr>login_request.Email = [], Password = [], DeviceID = []\<rparr> of
        (Some err, _) \<Rightarrow> (errorResponse StatusBadRequest ''invalid request body'', st)
      | (None, loginReq) \<Rightarrow>
          (case validator loginReq of
             Some err \<Rightarrow> (errorResponse StatusBadRequest ''validation failed'', st)
           | None \<Rightarrow>
               (case AuthService_Login authService e loginReq st of
                  (Inl err, st1) \<Rightarrow>
                    (if err = ErrInvalidCredentials then
                       errorResponse StatusUnauthorized ''invalid credentials''
                     else if err = ErrUserNotVerified then
                       errorResponse StatusForbidden ''email not verified''
                     else if err = ErrUserDisabled then
                       errorResponse StatusForbidden ''account disabled''
                     else errorResponse StatusInternalServerError ''authentication failed'',
                     st1)
                | (Inr authResponse, st1) \<Rightarrow>
                    (successResponse StatusOK (AuthBody authResponse), st1))))"

definition AuthHandlers_Logout ::
  "('u, 's) auth_service \<Rightarrow> ctx \<Rightarrow> logout_request request \<Rightarrow> 'u \<times> 's
     \<Rightarrow> response \<times> ('u \<times> 's)" where
  "AuthHandlers_Logout authService c request st =
     (case GetUserClaims c of
        None \<Rightarrow> (errorResponse StatusUnauthorized ''unauthorized'', st)
      | Some userClaims \<Rightarrow>
          (let logoutReq =
                 (if Body request \<noteq> EmptyBody then
                    snd (json_Unmarshal (Body request) \<lparr>logout_request.SessionID = []\<rparr>)
                  else \<lparr>logout_request.SessionID = []\<rparr>)
           in case AuthService_Logout authService (user_claims.UserID userClaims)
                     (logout_request.SessionID logoutReq) st of
                (Some err, st1) \<Rightarrow>
                  (errorResponse StatusInternalServerError ''logout failed'', st1)
              | (None, st1) \<Rightarrow>
                  (successResponse StatusOK (MessageBody ''logout successful''), st1)))"

definition AuthHandlers_RefreshToken ::
  "('u, 's) auth_service \<Rightarrow> (refresh_token_request \<Rightarrow> error option) \<Rightarrow> env
     \<Rightarrow> ctx \<Rightarrow> refresh_token_request request \<Rightarrow> 'u \<times> 's \<Rightarrow> response \<times> ('u \<times> 's)" where
  "AuthHandlers_RefreshToken authService validator e c request st =
     (case json_Unmarshal (Body request) \<lparr>refresh_token_request.RefreshToken = Plain []\<rparr> of
        (Some err, _) \<Rightarrow> (errorResponse StatusBadRequest ''invalid request body'', st)
      | (None, refreshReq) \<Rightarrow>
          (case validator refreshReq of
             Some err \<Rightarrow> (errorResponse StatusBadRequest ''validation failed'', st)
           | None \<Rightarrow>
               (case AuthService_RefreshToken authService e
                       (refresh_token_request.RefreshToken refreshReq) st of
                  (Inl err, st1) \<Rightarrow>
                    (if err = ErrInvalidToken then
                       errorResponse StatusUnauthorized ''invalid refresh token''
                     else if err = ErrTokenExpired then
                       errorResponse StatusUnauthorized ''refresh token expired''
                     else errorResponse StatusInternalServerError ''token refresh failed'',
                     st1)
                | (Inr authResponse, st1) \<Rightarrow>
                    (successResponse StatusOK (AuthBody authResponse), st1))))"

definition AuthHandlers_ForgotPassword ::
  "('u, 's) auth_service \<Rightarrow> (forgot_password_request \<Rightarrow> error option) \<Rightarrow> env
     \<Rightarrow> ctx \<Rightarrow> forgot_password_request request \<Rightarrow> 'u \<times> 's \<Rightarrow> response \<times> ('u \<times> 's)" where
  "AuthHandlers_ForgotPassword authService validator e c request st =
     (case json_Unmarshal (Body request) \<lparr>forgot_password_request.Email = []\<rparr> of
        (Some err, _) \<Rightarrow> (errorResponse StatusBadRequest ''invalid request body'', st)
      | (None, forgotReq) \<Rightarrow>
          (case validator forgotReq of
             Some err \<Rightarrow> (errorResponse StatusBadRequest ''validation failed'', st)
           | None \<Rightarrow>
               (case AuthService_ForgotPassword authService e
                       (forgot_password_request.Email forgotReq) st of
                  (_, st1) \<Rightarrow>
                    (successResponse StatusOK
                       (MessageBody ''if the email exists, a password reset link has been sent''),
                     st1))))"

definition AuthHandlers_ResendVerification ::
  "('u, 's) auth_service \<Rightarrow> (resend_verification_request \<Rightarrow> error option) \<Rightarrow> env
     \<Rightarrow> ctx \<Rightarrow> resend_verification_request request \<Rightarrow> 'u \<times> 's \<Rightarrow> response \<times> ('u \<times> 's)" where
  "AuthHandlers_ResendVerification authService validator e c request st =
     (case json_Unmarshal (Body request) \<lparr>resend_verification_request.Email = []\<rparr> of
        (Some err, _) \<Rightarrow> (errorResponse StatusBadRequest ''invalid request body'', st)
      | (None, resendReq) \<Rightarrow>
          (case validator resendReq of
             Some err \<Rightarrow> (errorResponse StatusBadRequest ''validation failed'', st)
           | None \<Rightarrow>
               (case AuthService_ResendVerification authService e
                       (resend_verification_request.Email resendReq) st of
                  (_, st1) \<Rightarrow>
                    (successResponse StatusOK
                       (MessageBody
                          ''if the email exists and is not verified, a verification email has been sent''),
                     st1))))"

text \<open>\<open>strings.TrimPrefix\<close> and \<open>strings.Split\<close> with a one-character separator.\<close>

fun TrimPrefix :: "string \<Rightarrow> string \<Rightarrow> string" where
  "TrimPrefix s prefix =
     (if take (length prefix) s = prefix then drop (length prefix) s else s)"

fun Split :: "string \<Rightarrow> char \<Rightarrow> string list" where
  "Split [] sep = [] # []"
| "Split (x # xs) sep =
     (if x = sep then [] # Split xs sep
      else (case Split xs sep of [] \<Rightarrow> [x] # [] | w # ws \<Rightarrow> (x # w) # ws))"

definition AuthHandlers_RevokeSession ::
  "('u, 's) auth_service \<Rightarrow> ctx \<Rightarrow> unit request \<Rightarrow> 'u \<times> 's \<Rightarrow> response \<times> ('u \<times> 's)" where
  "AuthHandlers_RevokeSession authService c request st =
     (case GetUserClaims c of
        None \<Rightarrow> (errorResponse StatusUnauthorized ''unauthorized'', st)
      | Some userClaims \<Rightarrow>
          (let pathParts = Split (TrimPrefix (Path request) ''/v1/auth/sessions/'') CHR ''/''
           in if length pathParts = 0 \<or> pathParts ! 0 = [] then
                (errorResponse StatusBadRequest ''session ID required'', st)
              else
                (let sessionID = pathParts ! 0
                 in case AuthService_RevokeSession authService
                           (user_claims.UserID userClaims) sessionID st of
                      (Some err, st1) \<Rightarrow>
                        (if err = ErrSessionNotFound then
                           errorResponse StatusNotFound ''session not found''
                         else errorResponse StatusInternalServerError
                                ''failed to revoke session'',
                         st1)
                    | (None, st1) \<Rightarrow>
                        (successResponse StatusOK (MessageBody ''session revoked successfully''),
                         st1))))"

section \<open>A stored repository\<close>

text \<open>
  The source holds the two repository interfaces and placeholder implementations only; the
  storage-backed implementations are not in it. The definitions of this section give the
  interfaces an implementation over tables held as lists of rows, where a read returns the
  first row with the key and a create puts the new row first. A list of operations that
  fail stands for storage failures: a failing operation returns an error and leaves the
  tables as they are. The two token records are those of package \<open>models\<close>.
\<close>

record password_reset_token =
  UserID :: string
  Token :: string
  ExpiresAt :: time
  Used :: bool
  CreatedAt :: time

record email_verification_token =
  UserID :: string
  Token :: string
  Email :: string
  ExpiresAt :: time
  Used :: bool
  CreatedAt :: time

record user_store =
  users :: "(user \<times> string) list"
  email_tokens :: "email_verification_token list"
  reset_tokens :: "password_reset_token list"

type_synonym session_store = "session list"

datatype repo_op =
    Op_CreateUser | Op_GetUser | Op_GetUserByEmail | Op_GetPasswordHash
  | Op_UpdatePassword | Op_UpdateLastLogin
  | Op_CreateEmailVerificationToken | Op_VerifyEmailToken | Op_MarkEmailTokenUsed
  | Op_MarkUserVerified
  | Op_CreatePasswordResetToken | Op_VerifyPasswordResetToken
  | Op_MarkPasswordResetTokenUsed
  | Op_CreateSession | Op_GetSession | Op_DeactivateSession | Op_DeactivateUserSessions

text \<open>Modelled from the spec: the error of a storage failure is missing from the source;
  it is an error that is none of the repository's four sentinel errors.\<close>

definition storage_failure :: error where
  "storage_failure = OtherError ''storage failure''"

text \<open>Modelled from the spec: the storage-backed \<open>CreateUser\<close> is missing from the source;
  it persists the user record with its password hash.\<close>

definition Store_CreateUser ::
  "repo_op list \<Rightarrow> user_store \<Rightarrow> user \<Rightarrow> string \<Rightarrow> error option \<times> user_store" where
  "Store_CreateUser faults us usr passwordHash =
     (if Op_CreateUser \<in> set faults then (Some storage_failure, us)
      else (None, us\<lparr>users := (usr, passwordHash) # users us\<rparr>))"

text \<open>Modelled from the spec: the storage-backed \<open>GetUser\<close> is missing from the source; it
  returns the user record with the id, or the repository's user-not-found error.\<close>

definition Store_GetUser :: "repo_op list \<Rightarrow> user_store \<Rightarrow> string \<Rightarrow> error + user" where
  "Store_GetUser faults us userID =
     (if Op_GetUser \<in> set faults then Inl storage_failure
      else (case find (\<lambda>row. user.ID (fst row) = userID) (users us) of
              None \<Rightarrow> Inl Repo_ErrUserNotFound
            | Some row \<Rightarrow> Inr (fst row)))"

text \<open>Modelled from the spec: the storage-backed \<open>GetUserByEmail\<close> is missing from the
  source; it returns the user record with the (unique) email, or user-not-found.\<close>

definition Store_GetUserByEmail :: "repo_op list \<Rightarrow> user_store \<Rightarrow> string \<Rightarrow> error + user" where
  "Store_GetUserByEmail faults us email =
     (if Op_GetUserByEmail \<in> set faults then Inl storage_failure
      else (case find (\<lambda>row. user.Email (fst row) = email) (users us) of
              None \<Rightarrow> Inl Repo_ErrUserNotFound
            | Some row \<Rightarrow> Inr (fst row)))"

text \<open>Modelled from the spec: the storage-backed \<open>GetPasswordHash\<close> is missing from the
  source; it returns the password hash stored for the user id, or user-not-found.\<close>

definition Store_GetPasswordHash :: "repo_op list \<Rightarrow> user_store \<Rightarrow> string \<Rightarrow> error + string" where
  "Store_GetPasswordHash faults us userID =
     (if Op_GetPasswordHash \<in> set faults then Inl storage_failure
      else (case find (\<lambda>row. user.ID (fst row) = userID) (users us) of
              None \<Rightarrow> Inl Repo_ErrUserNotFound
            | Some row \<Rightarrow> Inr (snd row)))"

text \<open>Modelled from the spec: the storage-backed \<open>UpdatePassword\<close> is missing from the
  source; it stores the new password hash for the user id.\<close>

definition Store_UpdatePassword ::
  "repo_op list \<Rightarrow> user_store \<Rightarrow> string \<Rightarrow> string \<Rightarrow> error option \<times> user_store" where
  "Store_UpdatePassword faults us userID passwordHash =
     (if Op_UpdatePassword \<in> set faults then (Some storage_failure, us)
      else (None, us\<lparr>users := map (\<lambda>row. if user.ID (fst row) = userID
                                          then (fst row, passwordHash) else row) (users us)\<rparr>))"

text \<open>Modelled from the spec: the storage-backed \<open>UpdateLastLogin\<close> is missing from the
  source; it stamps \<open>lastLoginAt\<close> on the user record.\<close>

definition Store_UpdateLastLogin ::
  "repo_op list \<Rightarrow> user_store \<Rightarrow> string \<Rightarrow> time \<Rightarrow> error option \<times> user_store" where
  "Store_UpdateLastLogin faults us userID loginTime =
     (if Op_UpdateLastLogin \<in> set faults then (Some storage_failure, us)
      else (None, us\<lparr>users := map (\<lambda>row. if user.ID (fst row) = userID
                                          then ((fst row)\<lparr>LastLoginAt := Some loginTime\<rparr>, snd row)
                                          else row) (users us)\<rparr>))"

text \<open>Modelled from the spec: the storage-backed \<open>CreateEmailVerificationToken\<close> is missing
  from the source; it persists an unused token that expires after the duration.\<close>

definition Store_CreateEmailVerificationToken ::
  "repo_op list \<Rightarrow> time \<Rightarrow> user_store \<Rightarrow> string \<Rightarrow> string \<Rightarrow> string \<Rightarrow> int
     \<Rightarrow> error option \<times> user_store" where
  "Store_CreateEmailVerificationToken faults now us userID email token duration =
     (if Op_CreateEmailVerificationToken \<in> set faults then (Some storage_failure, us)
      else (None, us\<lparr>email_tokens :=
                       \<lparr>email_verification_token.UserID = userID, Token = token, Email = email,
                        ExpiresAt = now + duration, Used = False, CreatedAt = now\<rparr>
                       # email_tokens us\<rparr>))"

text \<open>Modelled from the spec: the storage-backed \<open>VerifyEmailToken\<close> is missing from the
  source; a token is valid only if \<open>used = false\<close> and \<open>now < expiresAt\<close>, and a valid token
  yields its user id. An unknown or used token gives the repository's token-not-found
  error, an expired one its token-expired error.\<close>

definition Store_VerifyEmailToken ::
  "repo_op list \<Rightarrow> time \<Rightarrow> user_store \<Rightarrow> string \<Rightarrow> error + string" where
  "Store_VerifyEmailToken faults now us token =
     (if Op_VerifyEmailToken \<in> set faults then Inl storage_failure
      else (case find (\<lambda>t. email_verification_token.Token t = token) (email_tokens us) of
              None \<Rightarrow> Inl Repo_ErrTokenNotFound
            | Some t \<Rightarrow>
                if email_verification_token.Used t then Inl Repo_ErrTokenNotFound
                else if \<not> now < email_verification_token.ExpiresAt t then Inl Repo_ErrTokenExpired
                else Inr (email_verification_token.UserID t)))"

text \<open>Modelled from the spec: the storage-backed \<open>MarkEmailTokenUsed\<close> is missing from the
  source; it sets the token's \<open>used\<close> flag.\<close>

definition Store_MarkEmailTokenUsed ::
  "repo_op list \<Rightarrow> user_store \<Rightarrow> string \<Rightarrow> error option \<times> user_store" where
  "Store_MarkEmailTokenUsed faults us token =
     (if Op_MarkEmailTokenUsed \<in> set faults then (Some storage_failure, us)
      else (None, us\<lparr>email_tokens :=
                       map (\<lambda>t. if email_verification_token.Token t = token
                                then t\<lparr>email_verification_token.Used := True\<rparr> else t)
                           (email_tokens us)\<rparr>))"

text \<open>Modelled from the spec: the storage-backed \<open>MarkUserVerified\<close> is missing from the
  source; it sets \<open>isVerified = true\<close> on the user record.\<close>

definition Store_MarkUserVerified ::
  "repo_op list \<Rightarrow> user_store \<Rightarrow> string \<Rightarrow> error option \<times> user_store" where
  "Store_MarkUserVerified faults us userID =
     (if Op_MarkUserVerified \<in> set faults then (Some storage_failure, us)
      else (None, us\<lparr>users := map (\<lambda>row. if user.ID (fst row) = userID
                                          then ((fst row)\<lparr>IsVerified := True\<rparr>, snd row)
                                          else row) (users us)\<rparr>))"

text \<open>Modelled from the spec: the storage-backed \<open>CreatePasswordResetToken\<close> is missing from
  the source; it persists an unused token that expires after the duration.\<close>

definition Store_CreatePasswordResetToken ::
  "repo_op list \<Rightarrow> time \<Rightarrow> user_store \<Rightarrow> string \<Rightarrow> string \<Rightarrow> int
     \<Rightarrow> error option \<times> user_store" where
  "Store_CreatePasswordResetToken faults now us userID token duration =
     (if Op_CreatePasswordResetToken \<in> set faults then (Some storage_failure, us)
      else (None, us\<lparr>reset_tokens :=
                       \<lparr>password_reset_token.UserID = userID, Token = token,
                        ExpiresAt = now + duration, Used = False, CreatedAt = now\<rparr>
                       # reset_tokens us\<rparr>))"

text \<open>Modelled from the spec: the storage-backed \<open>VerifyPasswordResetToken\<close> is missing from
  the source; a token is valid only if \<open>used = false\<close> and \<open>now < expiresAt\<close>, and a valid
  token yields its user id. An unknown or used token gives the repository's
  token-not-found error, an expired one its token-expired error.\<close>

definition Store_VerifyPasswordResetToken ::
  "repo_op list \<Rightarrow> time \<Rightarrow> user_store \<Rightarrow> string \<Rightarrow> error + string" where
  "Store_VerifyPasswordResetToken faults now us token =
     (if Op_VerifyPasswordResetToken \<in> set faults then Inl storage_failure
      else (case find (\<lambda>t. password_reset_token.Token t = token) (reset_tokens us) of
              None \<Rightarrow> Inl Repo_ErrTokenNotFound
            | Some t \<Rightarrow>
                if password_reset_token.Used t then Inl Repo_ErrTokenNotFound
                else if \<not> now < password_reset_token.ExpiresAt t then Inl Repo_ErrTokenExpired
                else Inr (password_reset_token.UserID t)))"

text \<open>Modelled from the spec: the storage-backed \<open>MarkPasswordResetTokenUsed\<close> is missing
  from the source; it sets the token's \<open>used\<close> flag.\<close>

definition Store_MarkPasswordResetTokenUsed ::
  "repo_op list \<Rightarrow> user_store \<Rightarrow> string \<Rightarrow> error option \<times> user_store" where
  "Store_MarkPasswordResetTokenUsed faults us token =
     (if Op_MarkPasswordResetTokenUsed \<in> set faults then (Some storage_failure, us)
      else (None, us\<lparr>reset_tokens :=
                       map (\<lambda>t. if password_reset_token.Token t = token
                                then t\<lparr>password_reset_token.Used := True\<rparr> else t)
                           (reset_tokens us)\<rparr>))"

text \<open>Modelled from the spec: the storage-backed \<open>CreateSession\<close> is missing from the
  source; it persists the session.\<close>

definition Store_CreateSession ::
  "repo_op list \<Rightarrow> session_store \<Rightarrow> session \<Rightarrow> error option \<times> session_store" where
  "Store_CreateSession faults ss sess =
     (if Op_CreateSession \<in> set faults then (Some storage_failure, ss)
      else (None, sess # ss))"

text \<open>Modelled from the spec: the storage-backed \<open>GetSession\<close> is missing from the source;
  it returns the session with the id, or the repository's session-not-found error.\<close>

definition Store_GetSession :: "repo_op list \<Rightarrow> session_store \<Rightarrow> string \<Rightarrow> error + session" where
  "Store_GetSession faults ss sessionID =
     (if Op_GetSession \<in> set faults then Inl storage_failure
      else (case find (\<lambda>x. session.ID x = sessionID) ss of
              None \<Rightarrow> Inl Repo_ErrSessionNotFound
            | Some sess \<Rightarrow> Inr sess))"

text \<open>Modelled from the spec: the storage-backed \<open>DeactivateSession\<close> is missing from the
  source; it sets \<open>isActive = false\<close> on the session with the id, and deactivating an
  inactive or absent session is not an error.\<close>

definition Store_DeactivateSession ::
  "repo_op list \<Rightarrow> session_store \<Rightarrow> string \<Rightarrow> error option \<times> session_store" where
  "Store_DeactivateSession faults ss sessionID =
     (if Op_DeactivateSession \<in> set faults then (Some storage_failure, ss)
      else (None, map (\<lambda>x. if session.ID x = sessionID
                           then x\<lparr>session.IsActive := False\<rparr> else x) ss))"

text \<open>Modelled from the spec: the storage-backed \<open>DeactivateUserSessions\<close> is missing from
  the source; it sets \<open>isActive = false\<close> on every session of the user.\<close>

definition Store_DeactivateUserSessions ::
  "repo_op list \<Rightarrow> session_store \<Rightarrow> string \<Rightarrow> error option \<times> session_store" where
  "Store_DeactivateUserSessions faults ss userID =
     (if Op_DeactivateUserSessions \<in> set faults then (Some storage_failure, ss)
      else (None, map (\<lambda>x. if session.UserID x = userID
                           then x\<lparr>session.IsActive := False\<rparr> else x) ss))"

text \<open>Modelled from the spec: the storage-backed implementation of \<open>UserRepository\<close> is
  missing from the source; this one is made of the operations above, with the clock that
  token creation and verification read.\<close>

definition StoreUserRepository :: "repo_op list \<Rightarrow> time \<Rightarrow> user_store user_repo" where
  "StoreUserRepository faults now =
     \<lparr>CreateUser = Store_CreateUser faults,
      GetUser = Store_GetUser faults,
      GetUserByEmail = Store_GetUserByEmail faults,
      GetPasswordHash = Store_GetPasswordHash faults,
      UpdatePassword = Store_UpdatePassword faults,
      UpdateLastLogin = Store_UpdateLastLogin faults,
      CreateEmailVerificationToken = Store_CreateEmailVerificationToken faults now,
      VerifyEmailToken = Store_VerifyEmailToken faults now,
      MarkEmailTokenUsed = Store_MarkEmailTokenUsed faults,
      MarkUserVerified = Store_MarkUserVerified faults,
      CreatePasswordResetToken = Store_CreatePasswordResetToken faults now,
      VerifyPasswordResetToken = Store_VerifyPasswordResetToken faults now,
      MarkPasswordResetTokenUsed = Store_MarkPasswordResetTokenUsed faults\<rparr>"

text \<open>Modelled from the spec: the storage-backed implementation of \<open>SessionRepository\<close>
  is missing from the source; this one is made of the operations above.\<close>

definition StoreSessionRepository :: "repo_op list \<Rightarrow> session_store session_repo" where
  "StoreSessionRepository faults =
     \<lparr>CreateSession = Store_CreateSession faults,
      GetSession = Store_GetSession faults,
      DeactivateSession = Store_DeactivateSession faults,
      DeactivateUserSessions = Store_DeactivateUserSessions faults\<rparr>"

text \<open>Modelled from the spec: the service wired to storage-backed repositories is missing
  from the source, where \<open>NewAuthService\<close> wires in the placeholders; this is the service
  over the stored repositories, with the reading of the clock that the repository makes
  when it creates or verifies a token.\<close>

definition StoreAuthService ::
  "repo_op list \<Rightarrow> config \<Rightarrow> time \<Rightarrow> (user_store, session_store) auth_service" where
  "StoreAuthService faults c now =
     \<lparr>userRepo = StoreUserRepository faults now,
      sessionRepo = StoreSessionRepository faults,
      cfg = c\<rparr>"

text \<open>\<open>NewAuthService\<close> of the source: the service over the placeholders.\<close>

definition NewAuthService :: "config \<Rightarrow> (unit, unit) auth_service" where
  "NewAuthService c =
     \<lparr>userRepo = MockUserRepository, sessionRepo = MockSessionRepository, cfg = c\<rparr>"

section \<open>Example data\<close>

text \<open>
  A small configuration, environment and store on which the theorems below are run. The
  example clock starts at \<open>t\<close> and advances by a nanosecond with every reading. The
  example hash of a password is the password behind a marker character; the example
  comparison accepts exactly that.
\<close>

definition example_cfg :: config where
  "example_cfg = \<lparr>JWTSecret = ''key''\<rparr>"

definition example_env :: "time \<Rightarrow> env" where
  "example_env t =
     \<lparr>Now = (\<lambda>k. t + int k), NewUUID = ''s2'', RandHex = Inr ''r1'',
      BcryptGenerate = (\<lambda>p. Inr (CHR ''#'' # p)),
      BcryptCompare = (\<lambda>h p. if h = CHR ''#'' # p then None
                              else Some (OtherError ''hash and password differ''))\<rparr>"

definition alice :: user where
  "alice = \<lparr>user.ID = ''u1'', Email = ''a@x'', Name = ''Alice'', IsVerified = True,
            IsActive = True, Roles = [RoleUser], CreatedAt = 0, UpdatedAt = 0,
            LastLoginAt = None\<rparr>"

definition bob :: user where
  "bob = \<lparr>user.ID = ''u2'', Email = ''b@x'', Name = ''Bob'', IsVerified = True,
          IsActive = False, Roles = [RoleUser], CreatedAt = 0, UpdatedAt = 0,
          LastLoginAt = None\<rparr>"

definition carol :: user where
  "carol = \<lparr>user.ID = ''u3'', Email = ''c@x'', Name = ''Carol'', IsVerified = False,
            IsActive = True, Roles = [RoleUser], CreatedAt = 0, UpdatedAt = 0,
            LastLoginAt = None\<rparr>"

definition example_users :: user_store where
  "example_users =
     \<lparr>users = [(alice, ''#pw1''), (bob, ''#pw2''), (carol, ''#pw3'')],
      email_tokens =
        [\<lparr>email_verification_token.UserID = ''u3'', Token = ''e1'', Email = ''c@x'',
          ExpiresAt = DefaultVerifyTokenDuration, Used = False, CreatedAt = 0\<rparr>],
      reset_tokens =
        [\<lparr>password_reset_token.UserID = ''u1'', Token = ''t1'',
          ExpiresAt = DefaultResetTokenDuration, Used = False, CreatedAt = 0\<rparr>]\<rparr>"

definition example_session :: "string \<Rightarrow> string \<Rightarrow> bool \<Rightarrow> session" where
  "example_session sid uid active =
     \<lparr>session.ID = sid, UserID = uid, Token = [], DeviceID = ''d'', UserAgent = [],
      IPAddress = [], CreatedAt = 0, ExpiresAt = DefaultRefreshDuration, IsActive = active\<rparr>"

definition example_sessions :: session_store where
  "example_sessions =
     [example_session ''s1'' ''u1'' True, example_session ''s0'' ''u1'' False,
      example_session ''s3'' ''u2'' True]"

text \<open>The refresh token a login of a user into a session at time 0 issues.\<close>

definition example_refresh :: "string \<Rightarrow> string \<Rightarrow> gostring" where
  "example_refresh uid sid =
     Encoded \<lparr>Method = SigningMethodHMAC, SignedWith = ''key'',
              Claims = [(''sub'', CStr uid), (''session_id'', CStr sid), (''iat'', CNum 0),
                        (''exp'', CNum 604800), (''type'', CStr ''refresh'')]\<rparr>"

definition example_request :: "gostring list \<Rightarrow> 'a body \<Rightarrow> string \<Rightarrow> 'a request" where
  "example_request auth b p =
     \<lparr>Headers = (\<lambda>h. if h = ''Authorization'' then auth else []), Body = b, Path = p\<rparr>"

text \<open>
  Runs on the example store: a password reset with token \<open>t1\<close>, an email verification with
  token \<open>e1\<close>, a login, and the user a registration of \<open>d@x\<close> creates.
\<close>

definition example_reset ::
  "repo_op list \<Rightarrow> string \<Rightarrow> user_store \<times> session_store
     \<Rightarrow> error option \<times> (user_store \<times> session_store)" where
  "example_reset faults pw st =
     AuthService_ResetPassword (StoreAuthService faults example_cfg 5)
       (example_env 5) ''t1'' pw st"

definition example_verify ::
  "repo_op list \<Rightarrow> user_store \<times> session_store
     \<Rightarrow> error option \<times> (user_store \<times> session_store)" where
  "example_verify faults st =
     AuthService_VerifyEmail (StoreAuthService faults example_cfg 5) ''e1'' st"

definition example_login ::
  "string \<Rightarrow> string \<Rightarrow> (error + auth_response) \<times> (user_store \<times> session_store)" where
  "example_login email password =
     AuthService_Login (StoreAuthService [] example_cfg 5) (example_env 5)
       \<lparr>login_request.Email = email, Password = password, DeviceID = ''d''\<rparr>
       (example_users, example_sessions)"

definition example_new_user :: user where
  "example_new_user =
     \<lparr>user.ID = ''s2'', Email = ''d@x'', Name = ''Dan'', IsVerified = False, IsActive = True,
      Roles = [RoleUser], CreatedAt = 5, UpdatedAt = 6, LastLoginAt = None\<rparr>"

definition example_ctx :: ctx where
  "example_ctx =
     \<lparr>userClaimsKey =
        Some \<lparr>user_claims.UserID = ''u1'', Email = ''a@x'', Roles = [RoleUser]\<rparr>\<rparr>"

section \<open>Auxiliary facts\<close>

lemmas time_defs = DefaultRefreshDuration_def DefaultSessionDuration_def
  DefaultResetTokenDuration_def DefaultVerifyTokenDuration_def Hour_def Minute_def Second_def
  Unix_def in_int64_def

lemmas store_defs = StoreAuthService_def StoreUserRepository_def StoreSessionRepository_def
  Store_GetUser_def Store_GetSession_def example_users_def example_sessions_def
  example_session_def alice_def bob_def carol_def example_env_def

lemmas reset_eval = store_defs AuthService_ResetPassword_def AuthService_RefreshToken_def
  Store_VerifyPasswordResetToken_def Store_UpdatePassword_def
  Store_MarkPasswordResetTokenUsed_def Store_DeactivateUserSessions_def hashPassword_def
  time_defs IsExpired_def After_def generateAccessToken_def generateRefreshToken_def
  SignedString_def

lemmas verify_eval = store_defs AuthService_VerifyEmail_def Store_VerifyEmailToken_def
  Store_MarkUserVerified_def Store_MarkEmailTokenUsed_def time_defs

lemmas login_eval = example_login_def AuthService_Login_def store_defs verifyPassword_def
  Store_GetUserByEmail_def Store_GetPasswordHash_def

lemmas resend_eval = AuthService_ResendVerification_def sendVerificationEmail_def
  generateSecureToken_def Store_CreateEmailVerificationToken_def Store_GetUserByEmail_def
  store_defs

lemma Unix_in_int64: "in_int64 (Unix t)"
  by (simp add: Unix_def in_int64_def)

lemma exp_ok_issued:
  assumes "map_of cs ''exp'' = Some (CNum (Unix t))" and "now < Unix t * Second"
  shows "exp_ok cs now"
  using assms Unix_in_int64 [of t] by (simp add: exp_ok_def)

lemma find_map_keep:
  "(\<And>x. P (f x) = P x) \<Longrightarrow> find P (map f xs) = map_option f (find P xs)"
  by (induction xs) auto

lemma generateRefreshToken_example:
  "generateRefreshToken example_cfg 0 uid sid = Inr (example_refresh uid sid)"
  by (simp add: generateRefreshToken_def example_refresh_def example_cfg_def SignedString_def
      time_defs TokenTypeRefresh_def)

lemma parseRefreshToken_example:
  "t < 604800 * Second \<Longrightarrow> uid \<noteq> [] \<Longrightarrow> sid \<noteq> [] \<Longrightarrow>
   parseRefreshToken example_cfg t (example_refresh uid sid) =
     Inr \<lparr>token_claims.UserID = uid, Email = [], Name = [], Roles = [],
          SessionID = sid, IssuedAt = 0, ExpiresAt = 0\<rparr>"
  by (simp add: parseRefreshToken_def example_refresh_def example_cfg_def jwt_Parse_def
      keyFunc_def exp_ok_def nbf_ok_def str_claim_def TokenTypeRefresh_def in_int64_def)

lemma jwt_Parse_Inr: "jwt_Parse ts kf now = Inr t \<Longrightarrow> ts = Encoded t"
  by (auto simp: jwt_Parse_def split: gostring.splits sum.splits if_splits)

text \<open>
  With the placeholder repositories that \<open>NewAuthService\<close> wires in, no user is ever
  found: every login is answered with \<open>ErrInvalidCredentials\<close>. The properties below that
  depend on what storage holds are therefore stated over the stored repositories.
\<close>

lemma NewAuthService_Login:
  "AuthService_Login (NewAuthService c) e req st = (Inl ErrInvalidCredentials, st)"
  by (cases st) (simp add: AuthService_Login_def NewAuthService_def MockUserRepository_def)

section \<open>Token kinds (C1)\<close>

text \<open>
  A token whose \<open>type\<close> claim is not \<open>refresh\<close> never parses as a refresh token, whatever
  else holds of it, and \<open>RefreshToken\<close> answers every parse failure with \<open>ErrInvalidToken\<close>.
\<close>

lemma parseRefreshToken_wrong_type:
  assumes "str_claim (Claims t) ''type'' \<noteq> TokenTypeRefresh"
  shows "\<exists>err. parseRefreshToken c now (Encoded t) = Inl err"
proof (cases "jwt_Parse (Encoded t) (keyFunc c) now")
  case (Inl err)
  then show ?thesis by (simp add: parseRefreshToken_def)
next
  case (Inr t')
  then have "t' = t" by (auto dest: jwt_Parse_Inr)
  with Inr assms show ?thesis by (simp add: parseRefreshToken_def)
qed

lemma RefreshToken_parse_error:
  "parseRefreshToken (cfg s) (Now e 0) tok = Inl err \<Longrightarrow>
   AuthService_RefreshToken s e tok st = (Inl ErrInvalidToken, st)"
  by (cases st) (simp add: AuthService_RefreshToken_def)

text \<open>
  The half of C1 that the code keeps: an access token, here any token whose \<open>type\<close> claim
  is \<open>access\<close>, is rejected by \<open>parseRefreshToken\<close> (with \<open>ErrInvalidToken\<close> itself when the
  token is otherwise well-formed, signed and unexpired) and by \<open>RefreshToken\<close> with
  \<open>ErrInvalidToken\<close>, and nothing is written.
\<close>

lemma access_token_rejected_by_parseRefreshToken:
  assumes "str_claim (Claims t) ''type'' = TokenTypeAccess"
      and "jwt_Parse (Encoded t) (keyFunc c) now = Inr t"
  shows "parseRefreshToken c now (Encoded t) = Inl ErrInvalidToken"
  using assms by (simp add: parseRefreshToken_def TokenTypeAccess_def TokenTypeRefresh_def)

lemma access_token_rejected_by_RefreshToken:
  assumes "str_claim (Claims t) ''type'' = TokenTypeAccess"
  shows "AuthService_RefreshToken s e (Encoded t) st = (Inl ErrInvalidToken, st)"
proof -
  from assms have "str_claim (Claims t) ''type'' \<noteq> TokenTypeRefresh"
    by (simp add: TokenTypeAccess_def TokenTypeRefresh_def)
  then obtain err where "parseRefreshToken (cfg s) (Now e 0) (Encoded t) = Inl err"
    using parseRefreshToken_wrong_type by blast
  then show ?thesis by (rule RefreshToken_parse_error)
qed

text \<open>
  C1, the converse half, on which the code departs from the claim. The claim: a token whose
  type claim is \<open>refresh\<close> is rejected by the bearer-token validation of protected routes.
  The code: \<open>AuthMiddleware\<close> never reads the \<open>type\<close> claim. Every refresh token that
  \<open>generateRefreshToken\<close> issues for a non-empty user id, presented as the bearer token
  before its expiry, passes the middleware: the wrapped handler runs, with the token's
  subject as the authenticated user.
\<close>

theorem C1_refresh_token_passes_AuthMiddleware:
  assumes "userID \<noteq> []"
      and "generateRefreshToken c t0 userID sessionID = Inr tok"
      and "now < Unix (t0 + DefaultRefreshDuration) * Second"
      and "Headers req ''Authorization'' = [Plain ''Bearer'', tok]"
  shows "AuthMiddleware c now next cx req st =
           next (WithUserClaims cx \<lparr>user_claims.UserID = userID, Email = [], Roles = []\<rparr>)
             req st"
proof -
  let ?cs = "[(''sub'', CStr userID), (''session_id'', CStr sessionID),
              (''iat'', CNum (Unix t0)), (''exp'', CNum (Unix (t0 + DefaultRefreshDuration))),
              (''type'', CStr TokenTypeRefresh)]"
  from assms(2) have tok: "tok = Encoded \<lparr>Method = SigningMethodHMAC, SignedWith = JWTSecret c,
                                         Claims = ?cs\<rparr>"
    by (simp add: generateRefreshToken_def SignedString_def)
  have "exp_ok ?cs now"
    by (rule exp_ok_issued [OF _ assms(3)]) simp
  moreover have "nbf_ok ?cs now"
    by (simp add: nbf_ok_def)
  ultimately have "jwt_Parse tok (keyFunc c) now
                     = Inr \<lparr>Method = SigningMethodHMAC, SignedWith = JWTSecret c, Claims = ?cs\<rparr>"
    by (simp add: tok jwt_Parse_def keyFunc_def)
  with assms(1,4) show ?thesis
    by (simp add: AuthMiddleware_def str_claim_def arr_claim_def Let_def)
qed

text \<open>
  C1 on the example store: the refresh token of user \<open>u1\<close>, sent as the bearer token of a
  logout request with an empty body, is accepted, and the logout handler deactivates the
  sessions of \<open>u1\<close>.
\<close>

theorem C1_refresh_token_passes_AuthMiddleware_witness:
  "AuthMiddleware example_cfg 5
      (AuthHandlers_Logout (StoreAuthService [] example_cfg 5))
      \<lparr>userClaimsKey = None\<rparr>
      (example_request [Plain ''Bearer'', example_refresh ''u1'' ''s1''] EmptyBody
         ''/v1/auth/logout'')
      (example_users, example_sessions)
   = (successResponse StatusOK (MessageBody ''logout successful''),
      (example_users,
       [example_session ''s1'' ''u1'' False, example_session ''s0'' ''u1'' False,
        example_session ''s3'' ''u2'' True]))"
proof -
  let ?req = "example_request [Plain ''Bearer'', example_refresh ''u1'' ''s1''] EmptyBody
                ''/v1/auth/logout'' :: logout_request request"
  have h1: "''u1'' \<noteq> []" by simp
  have h2: "generateRefreshToken example_cfg 0 ''u1'' ''s1'' = Inr (example_refresh ''u1'' ''s1'')"
    by (rule generateRefreshToken_example)
  have h3: "(5::int) < Unix (0 + DefaultRefreshDuration) * Second"
    by (simp add: time_defs)
  have h4: "Headers ?req ''Authorization'' = [Plain ''Bearer'', example_refresh ''u1'' ''s1'']"
    by (simp add: example_request_def)
  from C1_refresh_token_passes_AuthMiddleware [OF h1 h2 h3 h4,
      of "AuthHandlers_Logout (StoreAuthService [] example_cfg 5)"
        "\<lparr>userClaimsKey = None\<rparr>" "(example_users, example_sessions)"]
  show ?thesis
    by (simp add: example_request_def AuthHandlers_Logout_def GetUserClaims_def
        WithUserClaims_def AuthService_Logout_def StoreAuthService_def
        StoreSessionRepository_def Store_DeactivateUserSessions_def example_sessions_def
        example_session_def successResponse_def)
qed

section \<open>Failures of token refresh (C2)\<close>

text \<open>
  C2, as the code has it. For a refresh token that parses, \<open>RefreshToken\<close> looks the user
  up before the session: a user that is not found gives \<open>ErrInvalidToken\<close>; a user found
  with \<open>IsActive = false\<close> gives \<open>ErrUserDisabled\<close>; and, for an active user, a session
  found inactive or past its \<open>ExpiresAt\<close> (at the reading of the clock that \<open>IsExpired\<close>
  makes) gives \<open>ErrTokenExpired\<close>. Nothing is written in any of the three cases.
\<close>

theorem C2_RefreshToken_failure_order:
  assumes "parseRefreshToken (cfg s) (Now e 0) tok = Inr claims"
  shows "(GetUser (userRepo s) us (token_claims.UserID claims) = Inl Repo_ErrUserNotFound \<longrightarrow>
            AuthService_RefreshToken s e tok (us, ss) = (Inl ErrInvalidToken, (us, ss)))
       \<and> (\<forall>usr. GetUser (userRepo s) us (token_claims.UserID claims) = Inr usr \<and>
                  \<not> user.IsActive usr \<longrightarrow>
            AuthService_RefreshToken s e tok (us, ss) = (Inl ErrUserDisabled, (us, ss)))
       \<and> (\<forall>usr sess. GetUser (userRepo s) us (token_claims.UserID claims) = Inr usr \<and>
                  user.IsActive usr \<and>
                  GetSession (sessionRepo s) ss (token_claims.SessionID claims) = Inr sess \<and>
                  (\<not> session.IsActive sess \<or> session.ExpiresAt sess < Now e 1) \<longrightarrow>
            AuthService_RefreshToken s e tok (us, ss) = (Inl ErrTokenExpired, (us, ss)))"
  using assms by (simp add: AuthService_RefreshToken_def IsExpired_def After_def)

text \<open>
  C2 as stated fails on a disabled user: \<open>bob\<close> exists with \<open>IsActive = false\<close>, his refresh
  token parses, and the call fails with \<open>ErrUserDisabled\<close>, which is not \<open>ErrInvalidToken\<close>.
\<close>

theorem C2_disabled_user_counterexample:
  "\<not> user.IsActive bob \<and>
   Store_GetUser [] example_users ''u2'' = Inr bob \<and>
   parseRefreshToken example_cfg 5 (example_refresh ''u2'' ''s3'') =
     Inr \<lparr>token_claims.UserID = ''u2'', Email = [], Name = [], Roles = [],
          SessionID = ''s3'', IssuedAt = 0, ExpiresAt = 0\<rparr> \<and>
   AuthService_RefreshToken (StoreAuthService [] example_cfg 5) (example_env 5)
      (example_refresh ''u2'' ''s3'') (example_users, example_sessions)
     = (Inl ErrUserDisabled, (example_users, example_sessions)) \<and>
   ErrUserDisabled \<noteq> ErrInvalidToken"
  by (simp add: parseRefreshToken_example Second_def AuthService_RefreshToken_def store_defs)

text \<open>
  C2 on the example store: an unknown user, the disabled user \<open>bob\<close>, and the inactive
  session \<open>s0\<close> of the active user \<open>alice\<close>.
\<close>

theorem C2_RefreshToken_failure_order_witness:
  "AuthService_RefreshToken (StoreAuthService [] example_cfg 5) (example_env 5)
      (example_refresh ''u9'' ''s1'') (example_users, example_sessions)
     = (Inl ErrInvalidToken, (example_users, example_sessions)) \<and>
   AuthService_RefreshToken (StoreAuthService [] example_cfg 5) (example_env 5)
      (example_refresh ''u2'' ''s3'') (example_users, example_sessions)
     = (Inl ErrUserDisabled, (example_users, example_sessions)) \<and>
   AuthService_RefreshToken (StoreAuthService [] example_cfg 5) (example_env 5)
      (example_refresh ''u1'' ''s0'') (example_users, example_sessions)
     = (Inl ErrTokenExpired, (example_users, example_sessions))"
proof -
  let ?s = "StoreAuthService [] example_cfg 5"
  have p: "\<And>uid sid. uid \<noteq> [] \<Longrightarrow> sid \<noteq> [] \<Longrightarrow>
      parseRefreshToken (cfg ?s) (Now (example_env 5) 0) (example_refresh uid sid) =
        Inr \<lparr>token_claims.UserID = uid, Email = [], Name = [], Roles = [],
             SessionID = sid, IssuedAt = 0, ExpiresAt = 0\<rparr>"
    by (simp add: parseRefreshToken_example StoreAuthService_def example_env_def Second_def)
  have g1: "GetUser (userRepo ?s) example_users ''u9'' = Inl Repo_ErrUserNotFound"
    and g2: "GetUser (userRepo ?s) example_users ''u2'' = Inr bob" "\<not> user.IsActive bob"
    and g3: "GetUser (userRepo ?s) example_users ''u1'' = Inr alice" "user.IsActive alice"
      "GetSession (sessionRepo ?s) example_sessions ''s0'' = Inr (example_session ''s0'' ''u1'' False)"
      "\<not> session.IsActive (example_session ''s0'' ''u1'' False)"
    by (simp_all add: store_defs)
  from C2_RefreshToken_failure_order [OF p [of "''u9''" "''s1''"], of example_users example_sessions]
    C2_RefreshToken_failure_order [OF p [of "''u2''" "''s3''"], of example_users example_sessions]
    C2_RefreshToken_failure_order [OF p [of "''u1''" "''s0''"], of example_users example_sessions]
    g1 g2 g3
  show ?thesis by simp
qed

text \<open>
  The handler answers \<open>ErrInvalidToken\<close> and \<open>ErrTokenExpired\<close> with status 401; every
  other error of the service, \<open>ErrUserDisabled\<close> among them, with status 500.
\<close>

lemma RefreshToken_handler_status:
  assumes "Body req = JSONFor r" and "validator r = None"
      and "AuthService_RefreshToken s e (refresh_token_request.RefreshToken r) st = (Inl err, st1)"
  shows "StatusCode (fst (AuthHandlers_RefreshToken s validator e cx req st))
           = (if err = ErrInvalidToken \<or> err = ErrTokenExpired then StatusUnauthorized
              else StatusInternalServerError)"
  using assms
  by (simp add: AuthHandlers_RefreshToken_def json_Unmarshal_def errorResponse_def)

section \<open>Password reset and the user's sessions (C3)\<close>

text \<open>What a successful \<open>ResetPassword\<close> over the stored repositories has done.\<close>

lemma ResetPassword_Store_success:
  assumes "AuthService_ResetPassword (StoreAuthService faults c t) e token pw (us, ss)
             = (None, (us', ss'))"
  shows "\<exists>uid h. Store_VerifyPasswordResetToken faults t us token = Inr uid \<and>
           BcryptGenerate e pw = Inr h \<and>
           us' = snd (Store_MarkPasswordResetTokenUsed faults
                        (snd (Store_UpdatePassword faults us uid h)) token) \<and>
           ss' = snd (Store_DeactivateUserSessions faults ss uid)"
  using assms
  by (auto simp: AuthService_ResetPassword_def StoreAuthService_def StoreUserRepository_def
      StoreSessionRepository_def hashPassword_def
      split: sum.splits if_splits prod.splits option.splits)

lemma Store_DeactivateUserSessions_all_inactive:
  assumes "Op_DeactivateUserSessions \<notin> set faults"
      and "x \<in> set (snd (Store_DeactivateUserSessions faults ss uid))"
      and "session.UserID x = uid"
  shows "\<not> session.IsActive x"
proof -
  let ?f = "\<lambda>y. if session.UserID y = uid then y\<lparr>session.IsActive := False\<rparr> else y"
  from assms(1,2) have "x \<in> set (map ?f ss)"
    by (simp add: Store_DeactivateUserSessions_def)
  then obtain y where "x = ?f y" by (auto simp del: set_map simp add: in_set_conv_nth)
  with assms(3) show ?thesis by (cases "session.UserID y = uid") simp_all
qed

lemma Store_GetSession_after_DeactivateUserSessions:
  assumes "Store_GetSession [] ss sid = Inr sess"
      and "Op_GetSession \<notin> set faults"
  shows "Store_GetSession faults
           (map (\<lambda>x. if session.UserID x = uid then x\<lparr>session.IsActive := False\<rparr> else x) ss)
           sid
         = Inr (if session.UserID sess = uid then sess\<lparr>session.IsActive := False\<rparr> else sess)"
proof -
  let ?f = "\<lambda>x. if session.UserID x = uid then x\<lparr>session.IsActive := False\<rparr> else x"
  from assms(1) have "find (\<lambda>x. session.ID x = sid) ss = Some sess"
    by (simp add: Store_GetSession_def split: option.splits)
  moreover have "find (\<lambda>x. session.ID x = sid) (map ?f ss)
                 = map_option ?f (find (\<lambda>x. session.ID x = sid) ss)"
    by (rule find_map_keep) simp
  ultimately show ?thesis using assms(2) by (simp add: Store_GetSession_def)
qed

text \<open>
  C3, as the code has it, over the stored repositories. \<open>ResetPassword\<close> succeeds for the
  reset token of user \<open>uid\<close> and the write that deactivates the user's sessions does not
  fail. Then a later \<open>RefreshToken\<close> with a refresh token that still parses (signature,
  type, expiry), that names a session of that user, and whose subject is still found and
  active, fails with \<open>ErrTokenExpired\<close>, provided the session lookup itself does not fail.
\<close>

theorem C3_reset_revokes_refresh_tokens:
  assumes "Op_DeactivateUserSessions \<notin> set faults"
      and "AuthService_ResetPassword (StoreAuthService faults c t1) e1 token newPassword (us, ss)
             = (None, (us', ss'))"
      and "Store_VerifyPasswordResetToken faults t1 us token = Inr uid"
      and "parseRefreshToken c (Now e2 0) rt = Inr claims"
      and "Store_GetSession [] ss (token_claims.SessionID claims) = Inr sess"
      and "session.UserID sess = uid"
      and "Store_GetUser faults2 us' (token_claims.UserID claims) = Inr usr"
      and "user.IsActive usr"
      and "Op_GetSession \<notin> set faults2"
  shows "AuthService_RefreshToken (StoreAuthService faults2 c t2) e2 rt (us', ss')
           = (Inl ErrTokenExpired, (us', ss'))"
proof -
  from ResetPassword_Store_success [OF assms(2)] assms(3)
  have "ss' = snd (Store_DeactivateUserSessions faults ss uid)" by auto
  with assms(1) have ss': "ss' = map (\<lambda>x. if session.UserID x = uid
                              then x\<lparr>session.IsActive := False\<rparr> else x) ss"
    by (simp add: Store_DeactivateUserSessions_def)
  have "Store_GetSession faults2 ss' (token_claims.SessionID claims)
          = Inr (sess\<lparr>session.IsActive := False\<rparr>)"
    unfolding ss'
    using Store_GetSession_after_DeactivateUserSessions [OF assms(5) assms(9), of uid] assms(6)
    by simp
  with assms(4,7,8) show ?thesis
    by (simp add: AuthService_RefreshToken_def StoreAuthService_def StoreUserRepository_def
        StoreSessionRepository_def)
qed

text \<open>
  C3 as stated fails when the write that deactivates the sessions fails: \<open>ResetPassword\<close>
  only logs that failure and still reports success, the session \<open>s1\<close> of \<open>alice\<close> stays
  active, and a later \<open>RefreshToken\<close> with her refresh token succeeds.
\<close>

theorem C3_swallowed_deactivation_counterexample:
  "fst (example_reset [Op_DeactivateUserSessions] ''pw9'' (example_users, example_sessions))
     = None \<and>
   \<not> isl (fst (AuthService_RefreshToken (StoreAuthService [] example_cfg 6)
      (example_env 6) (example_refresh ''u1'' ''s1'')
      (snd (example_reset [Op_DeactivateUserSessions] ''pw9''
              (example_users, example_sessions)))))"
  by (simp add: example_reset_def reset_eval parseRefreshToken_example)

text \<open>
  C3 on the example store, with no failing operation: the reset with token \<open>t1\<close> succeeds
  and the refresh token of \<open>alice\<close> for session \<open>s1\<close> is then refused with
  \<open>ErrTokenExpired\<close>.
\<close>

theorem C3_reset_revokes_refresh_tokens_witness:
  "fst (example_reset [] ''pw9'' (example_users, example_sessions)) = None \<and>
   AuthService_RefreshToken (StoreAuthService [] example_cfg 6)
      (example_env 6) (example_refresh ''u1'' ''s1'')
      (snd (example_reset [] ''pw9'' (example_users, example_sessions)))
   = (Inl ErrTokenExpired, snd (example_reset [] ''pw9'' (example_users, example_sessions)))"
proof -
  let ?r = "example_reset [] ''pw9'' (example_users, example_sessions)"
  have h1: "Op_DeactivateUserSessions \<notin> set []" by simp
  have h2: "AuthService_ResetPassword (StoreAuthService [] example_cfg 5)
              (example_env 5) ''t1'' ''pw9'' (example_users, example_sessions)
            = (None, (fst (snd ?r), snd (snd ?r)))"
    by (simp add: example_reset_def reset_eval)
  have h3: "Store_VerifyPasswordResetToken [] 5 example_users ''t1'' = Inr ''u1''"
    by (simp add: reset_eval)
  have h4: "parseRefreshToken example_cfg (Now (example_env 6) 0) (example_refresh ''u1'' ''s1'')
            = Inr \<lparr>token_claims.UserID = ''u1'', Email = [], Name = [], Roles = [],
                   SessionID = ''s1'', IssuedAt = 0, ExpiresAt = 0\<rparr>"
    by (simp add: parseRefreshToken_example example_env_def Second_def)
  have h5: "Store_GetSession [] example_sessions
              (token_claims.SessionID \<lparr>token_claims.UserID = ''u1'', Email = [], Name = [],
                 Roles = [], SessionID = ''s1'', IssuedAt = 0, ExpiresAt = 0\<rparr>)
            = Inr (example_session ''s1'' ''u1'' True)"
    by (simp add: store_defs)
  have h6: "session.UserID (example_session ''s1'' ''u1'' True) = ''u1''"
    by (simp add: example_session_def)
  have h7: "Store_GetUser [] (fst (snd ?r))
              (token_claims.UserID \<lparr>token_claims.UserID = ''u1'', Email = [], Name = [],
                 Roles = [], SessionID = ''s1'', IssuedAt = 0, ExpiresAt = 0\<rparr>)
            = Inr alice"
    by (simp add: example_reset_def reset_eval)
  have h8: "user.IsActive alice" by (simp add: alice_def)
  have h9: "Op_GetSession \<notin> set []" by simp
  from C3_reset_revokes_refresh_tokens [OF h1 h2 h3 h4 h5 h6 h7 h8 h9]
  have "AuthService_RefreshToken (StoreAuthService [] example_cfg 6)
          (example_env 6) (example_refresh ''u1'' ''s1'') (fst (snd ?r), snd (snd ?r))
        = (Inl ErrTokenExpired, (fst (snd ?r), snd (snd ?r)))" .
  moreover have "fst ?r = None" by (simp add: example_reset_def reset_eval)
  ultimately show ?thesis by simp
qed

text \<open>
  That the refresh token still parses is needed for the error to be \<open>ErrTokenExpired\<close>:
  with no failing operation, the refresh token of \<open>alice\<close> presented at its \<open>exp\<close> is
  refused after the reset with \<open>ErrInvalidToken\<close>.
\<close>

lemma RefreshToken_after_reset_expired_token:
  "AuthService_RefreshToken (StoreAuthService [] example_cfg (604800 * Second))
      (example_env (604800 * Second)) (example_refresh ''u1'' ''s1'')
      (snd (example_reset [] ''pw9'' (example_users, example_sessions)))
   = (Inl ErrInvalidToken, snd (example_reset [] ''pw9'' (example_users, example_sessions)))"
proof -
  have "parseRefreshToken
          (cfg (StoreAuthService [] example_cfg (604800 * Second)))
          (Now (example_env (604800 * Second)) 0) (example_refresh ''u1'' ''s1'')
        = Inl (OtherError ''token is expired'')"
    by (simp add: parseRefreshToken_def jwt_Parse_def keyFunc_def exp_ok_def in_int64_def
        example_refresh_def example_cfg_def example_env_def StoreAuthService_def)
  then show ?thesis by (rule RefreshToken_parse_error)
qed

section \<open>Single-use tokens (C5)\<close>

lemma Store_VerifyPasswordResetToken_after_mark:
  assumes "Store_VerifyPasswordResetToken faults now us token = Inr uid"
      and "Op_VerifyPasswordResetToken \<notin> set faults2"
      and "reset_tokens us' =
             map (\<lambda>t. if password_reset_token.Token t = token
                      then t\<lparr>password_reset_token.Used := True\<rparr> else t) (reset_tokens us)"
  shows "Store_VerifyPasswordResetToken faults2 now2 us' token = Inl Repo_ErrTokenNotFound"
proof -
  let ?f = "\<lambda>t. if password_reset_token.Token t = token
                 then t\<lparr>password_reset_token.Used := True\<rparr> else t"
  let ?P = "\<lambda>t. password_reset_token.Token t = token"
  from assms(1) obtain t where t: "find ?P (reset_tokens us) = Some t"
    by (auto simp: Store_VerifyPasswordResetToken_def split: if_splits option.splits)
  then have "?P t" by (auto simp: find_Some_iff)
  moreover have "find ?P (map ?f (reset_tokens us)) = map_option ?f (find ?P (reset_tokens us))"
    by (rule find_map_keep) simp
  ultimately have "find ?P (reset_tokens us') = Some (t\<lparr>password_reset_token.Used := True\<rparr>)"
    using t assms(3) by simp
  with assms(2) show ?thesis by (simp add: Store_VerifyPasswordResetToken_def)
qed

lemma Store_VerifyEmailToken_after_mark:
  assumes "Store_VerifyEmailToken faults now us token = Inr uid"
      and "Op_VerifyEmailToken \<notin> set faults2"
      and "email_tokens us' =
             map (\<lambda>t. if email_verification_token.Token t = token
                      then t\<lparr>email_verification_token.Used := True\<rparr> else t) (email_tokens us)"
  shows "Store_VerifyEmailToken faults2 now2 us' token = Inl Repo_ErrTokenNotFound"
proof -
  let ?f = "\<lambda>t. if email_verification_token.Token t = token
                 then t\<lparr>email_verification_token.Used := True\<rparr> else t"
  let ?P = "\<lambda>t. email_verification_token.Token t = token"
  from assms(1) obtain t where t: "find ?P (email_tokens us) = Some t"
    by (auto simp: Store_VerifyEmailToken_def split: if_splits option.splits)
  then have "?P t" by (auto simp: find_Some_iff)
  moreover have "find ?P (map ?f (email_tokens us)) = map_option ?f (find ?P (email_tokens us))"
    by (rule find_map_keep) simp
  ultimately have "find ?P (email_tokens us')
                     = Some (t\<lparr>email_verification_token.Used := True\<rparr>)"
    using t assms(3) by simp
  with assms(2) show ?thesis by (simp add: Store_VerifyEmailToken_def)
qed

lemma ResetPassword_twice:
  assumes "Op_MarkPasswordResetTokenUsed \<notin> set faults"
      and "Op_VerifyPasswordResetToken \<notin> set faults2"
      and "AuthService_ResetPassword (StoreAuthService faults c t1) e1 token pw1 st = (None, st1)"
  shows "AuthService_ResetPassword (StoreAuthService faults2 c2 t2) e2 token pw2 st1
           = (Some ErrInvalidToken, st1)"
proof -
  obtain us ss us1 ss1 where st: "st = (us, ss)" "st1 = (us1, ss1)"
    by (cases st, cases st1) auto
  from ResetPassword_Store_success [OF assms(3) [unfolded st]]
  obtain uid h where v: "Store_VerifyPasswordResetToken faults t1 us token = Inr uid"
    and us1: "us1 = snd (Store_MarkPasswordResetTokenUsed faults
                           (snd (Store_UpdatePassword faults us uid h)) token)"
    by blast
  from us1 assms(1) have "reset_tokens us1 =
      map (\<lambda>t. if password_reset_token.Token t = token
               then t\<lparr>password_reset_token.Used := True\<rparr> else t) (reset_tokens us)"
    by (simp add: Store_MarkPasswordResetTokenUsed_def Store_UpdatePassword_def)
  from Store_VerifyPasswordResetToken_after_mark [OF v assms(2) this]
  have "Store_VerifyPasswordResetToken faults2 t2 us1 token = Inl Repo_ErrTokenNotFound" .
  then show ?thesis
    by (simp add: st AuthService_ResetPassword_def StoreAuthService_def StoreUserRepository_def)
qed

lemma VerifyEmail_Store_success:
  assumes "AuthService_VerifyEmail (StoreAuthService faults c t) token (us, ss)
             = (None, (us', ss'))"
  shows "\<exists>uid. Store_VerifyEmailToken faults t us token = Inr uid \<and>
           us' = snd (Store_MarkEmailTokenUsed faults
                        (snd (Store_MarkUserVerified faults us uid)) token) \<and>
           ss' = ss"
  using assms
  by (auto simp: AuthService_VerifyEmail_def StoreAuthService_def StoreUserRepository_def
      split: sum.splits if_splits prod.splits option.splits)

lemma VerifyEmail_twice:
  assumes "Op_MarkEmailTokenUsed \<notin> set faults"
      and "Op_VerifyEmailToken \<notin> set faults2"
      and "AuthService_VerifyEmail (StoreAuthService faults c t1) token st = (None, st1)"
  shows "AuthService_VerifyEmail (StoreAuthService faults2 c2 t2) token st1
           = (Some ErrInvalidToken, st1)"
proof -
  obtain us ss us1 ss1 where st: "st = (us, ss)" "st1 = (us1, ss1)"
    by (cases st, cases st1) auto
  from VerifyEmail_Store_success [OF assms(3) [unfolded st]]
  obtain uid where v: "Store_VerifyEmailToken faults t1 us token = Inr uid"
    and us1: "us1 = snd (Store_MarkEmailTokenUsed faults
                           (snd (Store_MarkUserVerified faults us uid)) token)"
    by blast
  from us1 assms(1) have "email_tokens us1 =
      map (\<lambda>t. if email_verification_token.Token t = token
               then t\<lparr>email_verification_token.Used := True\<rparr> else t) (email_tokens us)"
    by (simp add: Store_MarkEmailTokenUsed_def Store_MarkUserVerified_def)
  from Store_VerifyEmailToken_after_mark [OF v assms(2) this]
  have "Store_VerifyEmailToken faults2 t2 us1 token = Inl Repo_ErrTokenNotFound" .
  then show ?thesis
    by (simp add: st AuthService_VerifyEmail_def StoreAuthService_def StoreUserRepository_def)
qed

text \<open>
  C5, as the code has it, over the stored repositories. After a \<open>ResetPassword\<close> that
  succeeded and whose write marking the token used did not fail, a second \<open>ResetPassword\<close>
  with the same token fails with \<open>ErrInvalidToken\<close> and writes nothing, at any later time
  and with any new password, provided the token lookup itself does not fail; and the same
  for \<open>VerifyEmail\<close> and its token.
\<close>

theorem C5_single_use_tokens:
  "(Op_MarkPasswordResetTokenUsed \<notin> set faults \<and> Op_VerifyPasswordResetToken \<notin> set faults2 \<and>
    AuthService_ResetPassword (StoreAuthService faults c t1) e1 token pw1 st = (None, st1)
    \<longrightarrow> AuthService_ResetPassword (StoreAuthService faults2 c t2) e2 token pw2 st1
          = (Some ErrInvalidToken, st1))
   \<and>
   (Op_MarkEmailTokenUsed \<notin> set faults \<and> Op_VerifyEmailToken \<notin> set faults2 \<and>
    AuthService_VerifyEmail (StoreAuthService faults c t1) token st = (None, st1)
    \<longrightarrow> AuthService_VerifyEmail (StoreAuthService faults2 c t2) token st1
          = (Some ErrInvalidToken, st1))"
proof (intro conjI impI; elim conjE)
  assume "Op_MarkPasswordResetTokenUsed \<notin> set faults"
    and "Op_VerifyPasswordResetToken \<notin> set faults2"
    and "AuthService_ResetPassword (StoreAuthService faults c t1) e1 token pw1 st = (None, st1)"
  then show "AuthService_ResetPassword (StoreAuthService faults2 c t2) e2 token pw2 st1
               = (Some ErrInvalidToken, st1)"
    by (rule ResetPassword_twice)
next
  assume "Op_MarkEmailTokenUsed \<notin> set faults"
    and "Op_VerifyEmailToken \<notin> set faults2"
    and "AuthService_VerifyEmail (StoreAuthService faults c t1) token st = (None, st1)"
  then show "AuthService_VerifyEmail (StoreAuthService faults2 c t2) token st1
               = (Some ErrInvalidToken, st1)"
    by (rule VerifyEmail_twice)
qed

text \<open>
  C5 as stated fails when the write that marks the token used fails: \<open>ResetPassword\<close> only
  logs that failure and still reports success, so the token \<open>t1\<close> resets the password a
  second time.
\<close>

theorem C5_swallowed_mark_used_counterexample:
  "fst (example_reset [Op_MarkPasswordResetTokenUsed] ''pw8'' (example_users, example_sessions))
     = None \<and>
   fst (example_reset [Op_MarkPasswordResetTokenUsed] ''pw9''
          (snd (example_reset [Op_MarkPasswordResetTokenUsed] ''pw8''
                  (example_users, example_sessions))))
     = None"
  by (simp add: example_reset_def reset_eval)

text \<open>
  C5 on the example store, with no failing operation: the reset token \<open>t1\<close> and the
  verification token \<open>e1\<close> each work once and are refused the second time.
\<close>

theorem C5_single_use_tokens_witness:
  "fst (example_reset [] ''pw8'' (example_users, example_sessions)) = None \<and>
   example_reset [] ''pw9'' (snd (example_reset [] ''pw8'' (example_users, example_sessions)))
     = (Some ErrInvalidToken, snd (example_reset [] ''pw8'' (example_users, example_sessions))) \<and>
   fst (example_verify [] (example_users, example_sessions)) = None \<and>
   example_verify [] (snd (example_verify [] (example_users, example_sessions)))
     = (Some ErrInvalidToken, snd (example_verify [] (example_users, example_sessions)))"
proof -
  let ?st = "(example_users, example_sessions)"
  define st1 where "st1 = snd (example_reset [] ''pw8'' ?st)"
  define st2 where "st2 = snd (example_verify [] ?st)"
  have r: "AuthService_ResetPassword (StoreAuthService [] example_cfg 5)
             (example_env 5) ''t1'' ''pw8'' ?st = (None, st1)"
    unfolding st1_def by (simp add: example_reset_def reset_eval)
  have v: "AuthService_VerifyEmail (StoreAuthService [] example_cfg 5) ''e1'' ?st
             = (None, st2)"
    unfolding st2_def by (simp add: example_verify_def verify_eval)
  have f: "Op_MarkPasswordResetTokenUsed \<notin> set []" "Op_VerifyPasswordResetToken \<notin> set []"
    "Op_MarkEmailTokenUsed \<notin> set []" "Op_VerifyEmailToken \<notin> set []"
    by simp_all
  from C5_single_use_tokens [where faults = "[]" and ?faults2.0 = "[]" and c = example_cfg
      and ?t1.0 = 5 and ?e1.0 = "example_env 5" and token = "''t1''" and ?pw1.0 = "''pw8''"
      and st = ?st and ?st1.0 = st1 and ?t2.0 = 5 and ?e2.0 = "example_env 5"
      and ?pw2.0 = "''pw9''"] f r
  have "AuthService_ResetPassword (StoreAuthService [] example_cfg 5)
          (example_env 5) ''t1'' ''pw9'' st1 = (Some ErrInvalidToken, st1)"
    by blast
  then have a: "example_reset [] ''pw9'' st1 = (Some ErrInvalidToken, st1)"
    by (simp add: example_reset_def)
  from C5_single_use_tokens [where faults = "[]" and ?faults2.0 = "[]" and c = example_cfg
      and ?t1.0 = 5 and token = "''e1''" and st = ?st and ?st1.0 = st2 and ?t2.0 = 5] f v
  have "AuthService_VerifyEmail (StoreAuthService [] example_cfg 5) ''e1'' st2
          = (Some ErrInvalidToken, st2)"
    by blast
  then have b: "example_verify [] st2 = (Some ErrInvalidToken, st2)"
    by (simp add: example_verify_def)
  from r have c: "fst (example_reset [] ''pw8'' ?st) = None"
    by (simp add: example_reset_def)
  from v have d: "fst (example_verify [] ?st) = None"
    by (simp add: example_verify_def)
  from a b c d show ?thesis
    unfolding st1_def st2_def by (intro conjI)
qed


section \<open>Login failures (C4)\<close>

lemma Login_invalid_credentials:
  assumes "GetUserByEmail (userRepo s) us (login_request.Email req1) = Inr usr"
      and "user.IsActive usr" and "IsVerified usr"
      and "verifyPassword s e1 us (user.ID usr) (login_request.Password req1) = Some err"
      and "GetUserByEmail (userRepo s) us (login_request.Email req2) = Inl Repo_ErrUserNotFound"
  shows "AuthService_Login s e1 req1 (us, ss) = (Inl ErrInvalidCredentials, (us, ss))"
    and "AuthService_Login s e2 req2 (us, ss) = (Inl ErrInvalidCredentials, (us, ss))"
  using assms by (simp_all add: AuthService_Login_def)

lemma Login_handler_invalid_credentials:
  assumes "AuthService_Login s e r st = (Inl ErrInvalidCredentials, st)"
      and "Body req = JSONFor r" and "validator r = None"
  shows "AuthHandlers_Login s validator e cx req st
           = (errorResponse StatusUnauthorized ''invalid credentials'', st)"
  using assms by (simp add: AuthHandlers_Login_def json_Unmarshal_def)

lemma Login_disabled:
  assumes "GetUserByEmail (userRepo s) us (login_request.Email req) = Inr usr"
      and "\<not> user.IsActive usr"
  shows "AuthService_Login s e req (us, ss) = (Inl ErrUserDisabled, (us, ss))"
  using assms by (simp add: AuthService_Login_def)

lemma Login_not_verified:
  assumes "GetUserByEmail (userRepo s) us (login_request.Email req) = Inr usr"
      and "user.IsActive usr" and "\<not> IsVerified usr"
  shows "AuthService_Login s e req (us, ss) = (Inl ErrUserNotVerified, (us, ss))"
  using assms by (simp add: AuthService_Login_def)

text \<open>
  C4, as the code has it. \<open>Login\<close> checks \<open>IsActive\<close> and \<open>IsVerified\<close> before it looks at the
  password. For a registered email whose user is active and verified and whose password
  does not verify, and for an email with no user, the two runs of \<open>Login\<close> differ in
  nothing that is returned or stored: both return \<open>ErrInvalidCredentials\<close>, both leave the
  repositories as they were, and the handler answers both with the same 401 response. For
  a registered user with \<open>IsActive = false\<close>, \<open>Login\<close> returns \<open>ErrUserDisabled\<close>, and for
  one that is active with \<open>IsVerified = false\<close> it returns \<open>ErrUserNotVerified\<close>, whatever
  the password is.
\<close>

theorem C4_Login_same_error:
  "(GetUserByEmail (userRepo s) us (login_request.Email req1) = Inr usr \<and>
    user.IsActive usr \<and> IsVerified usr \<and>
    verifyPassword s e1 us (user.ID usr) (login_request.Password req1) = Some err \<and>
    GetUserByEmail (userRepo s) us (login_request.Email req2) = Inl Repo_ErrUserNotFound
    \<longrightarrow> AuthService_Login s e1 req1 (us, ss) = (Inl ErrInvalidCredentials, (us, ss)) \<and>
        AuthService_Login s e2 req2 (us, ss) = (Inl ErrInvalidCredentials, (us, ss)))
   \<and>
   (GetUserByEmail (userRepo s) us (login_request.Email req1) = Inr usr \<and>
    user.IsActive usr \<and> IsVerified usr \<and>
    verifyPassword s e1 us (user.ID usr) (login_request.Password req1) = Some err \<and>
    GetUserByEmail (userRepo s) us (login_request.Email req2) = Inl Repo_ErrUserNotFound \<and>
    Body q1 = JSONFor req1 \<and> Body q2 = JSONFor req2 \<and>
    validator req1 = None \<and> validator req2 = None
    \<longrightarrow> AuthHandlers_Login s validator e1 cx1 q1 (us, ss)
          = (errorResponse StatusUnauthorized ''invalid credentials'', (us, ss)) \<and>
        AuthHandlers_Login s validator e2 cx2 q2 (us, ss)
          = (errorResponse StatusUnauthorized ''invalid credentials'', (us, ss)))
   \<and>
   (GetUserByEmail (userRepo s) us (login_request.Email req) = Inr usr' \<and>
    \<not> user.IsActive usr'
    \<longrightarrow> AuthService_Login s e req (us, ss) = (Inl ErrUserDisabled, (us, ss)))
   \<and>
   (GetUserByEmail (userRepo s) us (login_request.Email req) = Inr usr' \<and>
    user.IsActive usr' \<and> \<not> IsVerified usr'
    \<longrightarrow> AuthService_Login s e req (us, ss) = (Inl ErrUserNotVerified, (us, ss)))"
proof (intro conjI impI; elim conjE)
  assume a: "GetUserByEmail (userRepo s) us (login_request.Email req1) = Inr usr"
    "user.IsActive usr" "IsVerified usr"
    "verifyPassword s e1 us (user.ID usr) (login_request.Password req1) = Some err"
    "GetUserByEmail (userRepo s) us (login_request.Email req2) = Inl Repo_ErrUserNotFound"
  show "AuthService_Login s e1 req1 (us, ss) = (Inl ErrInvalidCredentials, (us, ss))"
    by (rule Login_invalid_credentials(1) [OF a])
  show "AuthService_Login s e2 req2 (us, ss) = (Inl ErrInvalidCredentials, (us, ss))"
    by (rule Login_invalid_credentials(2) [OF a])
  assume b: "Body q1 = JSONFor req1" "Body q2 = JSONFor req2"
    "validator req1 = None" "validator req2 = None"
  show "AuthHandlers_Login s validator e1 cx1 q1 (us, ss)
          = (errorResponse StatusUnauthorized ''invalid credentials'', (us, ss))"
    using Login_invalid_credentials(1) [OF a, of ss] b(1,3)
    by (simp add: AuthHandlers_Login_def json_Unmarshal_def)
  show "AuthHandlers_Login s validator e2 cx2 q2 (us, ss)
          = (errorResponse StatusUnauthorized ''invalid credentials'', (us, ss))"
    using Login_invalid_credentials(2) [OF a, of e2 ss] b(2,4)
    by (simp add: AuthHandlers_Login_def json_Unmarshal_def)
next
  assume "GetUserByEmail (userRepo s) us (login_request.Email req) = Inr usr'"
    and "\<not> user.IsActive usr'"
  then show "AuthService_Login s e req (us, ss) = (Inl ErrUserDisabled, (us, ss))"
    by (rule Login_disabled)
next
  assume "GetUserByEmail (userRepo s) us (login_request.Email req) = Inr usr'"
    and "user.IsActive usr'" and "\<not> IsVerified usr'"
  then show "AuthService_Login s e req (us, ss) = (Inl ErrUserNotVerified, (us, ss))"
    by (rule Login_not_verified)
qed

text \<open>
  C4 as stated fails for a registered user who is not verified, and for one who is
  disabled: with a wrong password \<open>carol\<close> gets \<open>ErrUserNotVerified\<close> and \<open>bob\<close> gets
  \<open>ErrUserDisabled\<close>, where an unregistered email gets \<open>ErrInvalidCredentials\<close>.
\<close>

theorem C4_unverified_user_counterexample:
  "Store_GetUserByEmail [] example_users ''c@x'' = Inr carol \<and>
   Store_GetUserByEmail [] example_users ''b@x'' = Inr bob \<and>
   Store_GetUserByEmail [] example_users ''n@x'' = Inl Repo_ErrUserNotFound \<and>
   verifyPassword (StoreAuthService [] example_cfg 5) (example_env 5)
     example_users ''u3'' ''wrong''
     = Some (Wrapped ''password verification failed'' (OtherError ''hash and password differ'')) \<and>
   verifyPassword (StoreAuthService [] example_cfg 5) (example_env 5)
     example_users ''u2'' ''wrong''
     = Some (Wrapped ''password verification failed'' (OtherError ''hash and password differ'')) \<and>
   fst (example_login ''c@x'' ''wrong'') = Inl ErrUserNotVerified \<and>
   fst (example_login ''b@x'' ''wrong'') = Inl ErrUserDisabled \<and>
   fst (example_login ''n@x'' ''wrong'') = Inl ErrInvalidCredentials"
  by (simp add: login_eval)

text \<open>
  C4 on the example store: the active, verified \<open>alice\<close> with a wrong password and an
  unregistered email, through the service and through the handler; the disabled \<open>bob\<close>
  and the unverified \<open>carol\<close>, each with the right password.
\<close>

theorem C4_Login_same_error_witness:
  "example_login ''a@x'' ''wrong''
     = (Inl ErrInvalidCredentials, (example_users, example_sessions)) \<and>
   example_login ''n@x'' ''wrong''
     = (Inl ErrInvalidCredentials, (example_users, example_sessions)) \<and>
   AuthHandlers_Login (StoreAuthService [] example_cfg 5) (\<lambda>r. None) (example_env 5)
     \<lparr>userClaimsKey = None\<rparr>
     (example_request []
        (JSONFor \<lparr>login_request.Email = ''a@x'', Password = ''wrong'', DeviceID = ''d''\<rparr>)
        ''/v1/auth/login'')
     (example_users, example_sessions)
     = (errorResponse StatusUnauthorized ''invalid credentials'',
        (example_users, example_sessions)) \<and>
   AuthHandlers_Login (StoreAuthService [] example_cfg 5) (\<lambda>r. None) (example_env 5)
     \<lparr>userClaimsKey = None\<rparr>
     (example_request []
        (JSONFor \<lparr>login_request.Email = ''n@x'', Password = ''wrong'', DeviceID = ''d''\<rparr>)
        ''/v1/auth/login'')
     (example_users, example_sessions)
     = (errorResponse StatusUnauthorized ''invalid credentials'',
        (example_users, example_sessions)) \<and>
   example_login ''b@x'' ''pw2'' = (Inl ErrUserDisabled, (example_users, example_sessions)) \<and>
   example_login ''c@x'' ''pw3''
     = (Inl ErrUserNotVerified, (example_users, example_sessions))"
proof -
  let ?s = "StoreAuthService [] example_cfg 5"
  let ?e = "example_env 5"
  let ?r1 = "\<lparr>login_request.Email = ''a@x'', Password = ''wrong'', DeviceID = ''d''\<rparr>"
  let ?r2 = "\<lparr>login_request.Email = ''n@x'', Password = ''wrong'', DeviceID = ''d''\<rparr>"
  let ?rb = "\<lparr>login_request.Email = ''b@x'', Password = ''pw2'', DeviceID = ''d''\<rparr>"
  let ?rc = "\<lparr>login_request.Email = ''c@x'', Password = ''pw3'', DeviceID = ''d''\<rparr>"
  let ?q1 = "example_request [] (JSONFor ?r1) ''/v1/auth/login''"
  let ?q2 = "example_request [] (JSONFor ?r2) ''/v1/auth/login''"
  let ?v = "\<lambda>r::login_request. None::error option"
  have a: "GetUserByEmail (userRepo ?s) example_users (login_request.Email ?r1) = Inr alice \<and>
           user.IsActive alice \<and> IsVerified alice \<and>
           verifyPassword ?s ?e example_users (user.ID alice) (login_request.Password ?r1)
             = Some (Wrapped ''password verification failed''
                       (OtherError ''hash and password differ'')) \<and>
           GetUserByEmail (userRepo ?s) example_users (login_request.Email ?r2)
             = Inl Repo_ErrUserNotFound"
    by (simp add: store_defs Store_GetUserByEmail_def verifyPassword_def
        Store_GetPasswordHash_def)
  have b: "Body ?q1 = JSONFor ?r1 \<and> Body ?q2 = JSONFor ?r2 \<and> ?v ?r1 = None \<and> ?v ?r2 = None"
    by (simp add: example_request_def)
  have c: "GetUserByEmail (userRepo ?s) example_users (login_request.Email ?rb) = Inr bob \<and>
           \<not> user.IsActive bob"
    by (simp add: store_defs Store_GetUserByEmail_def)
  have d: "GetUserByEmail (userRepo ?s) example_users (login_request.Email ?rc) = Inr carol \<and>
           user.IsActive carol \<and> \<not> IsVerified carol"
    by (simp add: store_defs Store_GetUserByEmail_def)
  note t = C4_Login_same_error [where s = ?s and us = example_users and ss = example_sessions
      and ?req1.0 = ?r1 and ?req2.0 = ?r2 and usr = alice and ?e1.0 = ?e and ?e2.0 = ?e
      and err = "Wrapped ''password verification failed''
                   (OtherError ''hash and password differ'')"
      and ?q1.0 = ?q1 and ?q2.0 = ?q2 and validator = ?v
      and ?cx1.0 = "\<lparr>userClaimsKey = None\<rparr>" and ?cx2.0 = "\<lparr>userClaimsKey = None\<rparr>"
      and e = ?e]
  from a b t [where req = ?rb and usr' = bob]
  have 1: "AuthService_Login ?s ?e ?r1 (example_users, example_sessions)
             = (Inl ErrInvalidCredentials, (example_users, example_sessions))"
    and 2: "AuthService_Login ?s ?e ?r2 (example_users, example_sessions)
             = (Inl ErrInvalidCredentials, (example_users, example_sessions))"
    and 3: "AuthHandlers_Login ?s ?v ?e \<lparr>userClaimsKey = None\<rparr> ?q1 (example_users, example_sessions)
             = (errorResponse StatusUnauthorized ''invalid credentials'',
                (example_users, example_sessions))"
    and 4: "AuthHandlers_Login ?s ?v ?e \<lparr>userClaimsKey = None\<rparr> ?q2 (example_users, example_sessions)
             = (errorResponse StatusUnauthorized ''invalid credentials'',
                (example_users, example_sessions))"
    by blast+
  from c t [where req = ?rb and usr' = bob]
  have 5: "AuthService_Login ?s ?e ?rb (example_users, example_sessions)
             = (Inl ErrUserDisabled, (example_users, example_sessions))"
    by blast
  from d t [where req = ?rc and usr' = carol]
  have 6: "AuthService_Login ?s ?e ?rc (example_users, example_sessions)
             = (Inl ErrUserNotVerified, (example_users, example_sessions))"
    by blast
  from 1 2 3 4 5 6 show ?thesis
    unfolding example_login_def by (intro conjI)
qed

section \<open>Revoking a session of another user (C6)\<close>

text \<open>
  C6. \<open>RevokeSession\<close> for a session that exists but belongs to another user, and for a
  session id that the repository does not find, returns the same \<open>ErrSessionNotFound\<close> and
  writes nothing; the handler answers both with the same 404 response.
\<close>

theorem C6_RevokeSession_same_error:
  assumes "GetSession (sessionRepo s) ss sid1 = Inr sess"
      and "session.UserID sess \<noteq> userID"
      and "GetSession (sessionRepo s) ss sid2 = Inl Repo_ErrSessionNotFound"
      and "GetUserClaims cx = Some uc" and "user_claims.UserID uc = userID"
      and "Split (TrimPrefix (Path req1) ''/v1/auth/sessions/'') CHR ''/'' = sid1 # rest1"
      and "Split (TrimPrefix (Path req2) ''/v1/auth/sessions/'') CHR ''/'' = sid2 # rest2"
      and "sid1 \<noteq> []" and "sid2 \<noteq> []"
  shows "AuthService_RevokeSession s userID sid1 (us, ss) = (Some ErrSessionNotFound, (us, ss)) \<and>
         AuthService_RevokeSession s userID sid2 (us, ss) = (Some ErrSessionNotFound, (us, ss)) \<and>
         AuthHandlers_RevokeSession s cx req1 (us, ss)
           = (errorResponse StatusNotFound ''session not found'', (us, ss)) \<and>
         AuthHandlers_RevokeSession s cx req2 (us, ss)
           = (errorResponse StatusNotFound ''session not found'', (us, ss))"
  using assms by (simp add: AuthService_RevokeSession_def AuthHandlers_RevokeSession_def Let_def)

text \<open>
  C6 on the example store: user \<open>u1\<close> asks to revoke \<open>s3\<close>, a session of \<open>u2\<close>, and \<open>s9\<close>,
  which does not exist.
\<close>

theorem C6_RevokeSession_same_error_witness:
  "AuthService_RevokeSession (StoreAuthService [] example_cfg 5) ''u1'' ''s3''
     (example_users, example_sessions)
     = (Some ErrSessionNotFound, (example_users, example_sessions)) \<and>
   AuthService_RevokeSession (StoreAuthService [] example_cfg 5) ''u1'' ''s9''
     (example_users, example_sessions)
     = (Some ErrSessionNotFound, (example_users, example_sessions)) \<and>
   AuthHandlers_RevokeSession (StoreAuthService [] example_cfg 5) example_ctx
     (example_request [] EmptyBody ''/v1/auth/sessions/s3'') (example_users, example_sessions)
     = (errorResponse StatusNotFound ''session not found'', (example_users, example_sessions)) \<and>
   AuthHandlers_RevokeSession (StoreAuthService [] example_cfg 5) example_ctx
     (example_request [] EmptyBody ''/v1/auth/sessions/s9'') (example_users, example_sessions)
     = (errorResponse StatusNotFound ''session not found'', (example_users, example_sessions))"
proof -
  let ?s = "StoreAuthService [] example_cfg 5"
  let ?q1 = "example_request [] EmptyBody ''/v1/auth/sessions/s3'' :: unit request"
  let ?q2 = "example_request [] EmptyBody ''/v1/auth/sessions/s9'' :: unit request"
  have h1: "GetSession (sessionRepo ?s) example_sessions ''s3''
            = Inr (example_session ''s3'' ''u2'' True)"
    by (simp add: store_defs)
  have h2: "session.UserID (example_session ''s3'' ''u2'' True) \<noteq> ''u1''"
    by (simp add: example_session_def)
  have h3: "GetSession (sessionRepo ?s) example_sessions ''s9'' = Inl Repo_ErrSessionNotFound"
    by (simp add: store_defs)
  have h4: "GetUserClaims example_ctx
            = Some \<lparr>user_claims.UserID = ''u1'', Email = ''a@x'', Roles = [RoleUser]\<rparr>"
    by (simp add: GetUserClaims_def example_ctx_def)
  have h5: "user_claims.UserID \<lparr>user_claims.UserID = ''u1'', Email = ''a@x'',
                                 Roles = [RoleUser]\<rparr> = ''u1''"
    by simp
  have h6: "Split (TrimPrefix (Path ?q1) ''/v1/auth/sessions/'') CHR ''/'' = ''s3'' # []"
    by (simp add: example_request_def)
  have h7: "Split (TrimPrefix (Path ?q2) ''/v1/auth/sessions/'') CHR ''/'' = ''s9'' # []"
    by (simp add: example_request_def)
  have h8: "''s3'' \<noteq> []" and h9: "''s9'' \<noteq> []" by simp_all
  from C6_RevokeSession_same_error [OF h1 h2 h3 h4 h5 h6 h7 h8 h9, of example_users]
  show ?thesis .
qed

section \<open>Email dispatch (C7)\<close>

lemma Register_ignores_dispatch_result:
  assumes "GetUserByEmail (userRepo s) us (register_request.Email req) = Inl Repo_ErrUserNotFound"
      and "hashPassword e (register_request.Password req) = Inr h"
      and "usr = \<lparr>user.ID = NewUUID e, Email = register_request.Email req,
                   Name = register_request.Name req, IsVerified = False, IsActive = True,
                   Roles = [RoleUser], CreatedAt = Now e 0, UpdatedAt = Now e 1,
                   LastLoginAt = None\<rparr>"
      and "CreateUser (userRepo s) us usr h = (None, us1)"
  shows "AuthService_Register s e req (us, ss)
           = (Inr usr, (snd (sendVerificationEmail s e us1 usr), ss))"
  using assms by (simp add: AuthService_Register_def Let_def split: prod.splits)

lemma ForgotPassword_after_store:
  assumes "GetUserByEmail (userRepo s) us email = Inr usr"
      and "generateSecureToken e = Inr resetToken"
      and "CreatePasswordResetToken (userRepo s) us (user.ID usr) resetToken
             DefaultResetTokenDuration = (None, us1)"
  shows "AuthService_ForgotPassword s e email (us, ss) = (None, (us1, ss))"
  using assms by (simp add: AuthService_ForgotPassword_def sendPasswordResetEmail_def)

lemma ResendVerification_dispatch_failure:
  assumes "GetUserByEmail (userRepo s) us email = Inr usr"
      and "\<not> IsVerified usr"
      and "sendVerificationEmail s e us usr = (Some err, us1)"
  shows "AuthService_ResendVerification s e email (us, ss)
           = (Some (Wrapped ''failed to send verification email'' err), (us1, ss))"
  using assms by (simp add: AuthService_ResendVerification_def)

lemma ResendVerification_handler_always_OK:
  assumes "Body req = JSONFor r" and "validator r = None"
  shows "fst (AuthHandlers_ResendVerification s validator e cx req st)
           = successResponse StatusOK (MessageBody
               ''if the email exists and is not verified, a verification email has been sent'')"
  using assms
  by (simp add: AuthHandlers_ResendVerification_def json_Unmarshal_def split: prod.splits)

lemma ForgotPassword_handler_always_OK:
  assumes "Body req = JSONFor r" and "validator r = None"
  shows "fst (AuthHandlers_ForgotPassword s validator e cx req st)
           = successResponse StatusOK
               (MessageBody ''if the email exists, a password reset link has been sent'')"
  using assms
  by (simp add: AuthHandlers_ForgotPassword_def json_Unmarshal_def split: prod.splits)

text \<open>
  C7, as the code has it. In \<open>Register\<close> a failure of \<open>sendVerificationEmail\<close> is ignored:
  the created user is returned. In \<open>ForgotPassword\<close> the dispatch step,
  \<open>sendPasswordResetEmail\<close>, cannot fail, so the operation succeeds once the reset token is
  stored. In \<open>ResendVerification\<close> a failure of \<open>sendVerificationEmail\<close> makes the service
  operation return the wrapped error. The handlers of \<open>ResendVerification\<close> and
  \<open>ForgotPassword\<close> discard the service's error: for a body that decodes and validates
  they answer 200 with their fixed message.
\<close>

theorem C7_email_dispatch_failure:
  "(GetUserByEmail (userRepo s) us (register_request.Email req) = Inl Repo_ErrUserNotFound \<and>
    hashPassword e (register_request.Password req) = Inr h \<and>
    usr = \<lparr>user.ID = NewUUID e, Email = register_request.Email req,
           Name = register_request.Name req, IsVerified = False, IsActive = True,
           Roles = [RoleUser], CreatedAt = Now e 0, UpdatedAt = Now e 1,
           LastLoginAt = None\<rparr> \<and>
    CreateUser (userRepo s) us usr h = (None, us1) \<and>
    sendVerificationEmail s e us1 usr = (Some err, us2)
    \<longrightarrow> AuthService_Register s e req (us, ss) = (Inr usr, (us2, ss)))
   \<and>
   (GetUserByEmail (userRepo s) us email = Inr usr' \<and>
    generateSecureToken e = Inr resetToken \<and>
    CreatePasswordResetToken (userRepo s) us (user.ID usr') resetToken
      DefaultResetTokenDuration = (None, us3)
    \<longrightarrow> AuthService_ForgotPassword s e email (us, ss) = (None, (us3, ss)))
   \<and>
   (GetUserByEmail (userRepo s) us email = Inr usr' \<and> \<not> IsVerified usr' \<and>
    sendVerificationEmail s e us usr' = (Some err, us4)
    \<longrightarrow> AuthService_ResendVerification s e email (us, ss)
          = (Some (Wrapped ''failed to send verification email'' err), (us4, ss)))
   \<and>
   (Body rreq = JSONFor r \<and> rvalidator r = None
    \<longrightarrow> fst (AuthHandlers_ResendVerification s rvalidator e cx rreq st)
          = successResponse StatusOK (MessageBody
              ''if the email exists and is not verified, a verification email has been sent''))
   \<and>
   (Body freq = JSONFor f \<and> fvalidator f = None
    \<longrightarrow> fst (AuthHandlers_ForgotPassword s fvalidator e cx freq st)
          = successResponse StatusOK
              (MessageBody ''if the email exists, a password reset link has been sent''))"
proof (intro conjI impI; elim conjE)
  assume "GetUserByEmail (userRepo s) us (register_request.Email req) = Inl Repo_ErrUserNotFound"
    and "hashPassword e (register_request.Password req) = Inr h"
    and "usr = \<lparr>user.ID = NewUUID e, Email = register_request.Email req,
           Name = register_request.Name req, IsVerified = False, IsActive = True,
           Roles = [RoleUser], CreatedAt = Now e 0, UpdatedAt = Now e 1,
           LastLoginAt = None\<rparr>"
    and "CreateUser (userRepo s) us usr h = (None, us1)"
    and "sendVerificationEmail s e us1 usr = (Some err, us2)"
  then show "AuthService_Register s e req (us, ss) = (Inr usr, (us2, ss))"
    using Register_ignores_dispatch_result [of s us req e h usr us1 ss] by simp
next
  assume "GetUserByEmail (userRepo s) us email = Inr usr'"
    and "generateSecureToken e = Inr resetToken"
    and "CreatePasswordResetToken (userRepo s) us (user.ID usr') resetToken
           DefaultResetTokenDuration = (None, us3)"
  then show "AuthService_ForgotPassword s e email (us, ss) = (None, (us3, ss))"
    by (rule ForgotPassword_after_store)
next
  assume "GetUserByEmail (userRepo s) us email = Inr usr'" and "\<not> IsVerified usr'"
    and "sendVerificationEmail s e us usr' = (Some err, us4)"
  then show "AuthService_ResendVerification s e email (us, ss)
               = (Some (Wrapped ''failed to send verification email'' err), (us4, ss))"
    by (rule ResendVerification_dispatch_failure)
next
  assume "Body rreq = JSONFor r" and "rvalidator r = None"
  then show "fst (AuthHandlers_ResendVerification s rvalidator e cx rreq st)
          = successResponse StatusOK (MessageBody
              ''if the email exists and is not verified, a verification email has been sent'')"
    by (rule ResendVerification_handler_always_OK)
next
  assume "Body freq = JSONFor f" and "fvalidator f = None"
  then show "fst (AuthHandlers_ForgotPassword s fvalidator e cx freq st)
          = successResponse StatusOK
              (MessageBody ''if the email exists, a password reset link has been sent'')"
    by (rule ForgotPassword_handler_always_OK)
qed

text \<open>
  C7 as stated fails for \<open>ResendVerification\<close>: for the unverified \<open>carol\<close>, with the write
  that stores the verification token failing, \<open>sendVerificationEmail\<close> fails and the
  operation returns an error.
\<close>

theorem C7_ResendVerification_counterexample:
  "Store_GetUserByEmail [] example_users ''c@x'' = Inr carol \<and> \<not> IsVerified carol \<and>
   AuthService_ResendVerification
     (StoreAuthService [Op_CreateEmailVerificationToken] example_cfg 5)
     (example_env 5) ''c@x'' (example_users, example_sessions)
   = (Some (Wrapped ''failed to send verification email''
              (Wrapped ''failed to store verification token'' storage_failure)),
      (example_users, example_sessions))"
  by (simp add: resend_eval)

text \<open>
  C7 on the example store, with the write that stores a verification token failing: a
  registration of \<open>d@x\<close> still returns the new user, \<open>ForgotPassword\<close> for \<open>carol\<close>
  succeeds, \<open>ResendVerification\<close> for \<open>carol\<close> returns the wrapped error, and the two
  handlers answer 200.
\<close>

theorem C7_email_dispatch_failure_witness:
  "AuthService_Register
     (StoreAuthService [Op_CreateEmailVerificationToken] example_cfg 5)
     (example_env 5) \<lparr>register_request.Email = ''d@x'', Password = ''pw4'', Name = ''Dan''\<rparr>
     (example_users, example_sessions)
   = (Inr example_new_user,
      (example_users\<lparr>users := (example_new_user, ''#pw4'') # users example_users\<rparr>,
       example_sessions)) \<and>
   AuthService_ResendVerification
     (StoreAuthService [Op_CreateEmailVerificationToken] example_cfg 5)
     (example_env 5) ''c@x'' (example_users, example_sessions)
   = (Some (Wrapped ''failed to send verification email''
              (Wrapped ''failed to store verification token'' storage_failure)),
      (example_users, example_sessions)) \<and>
   AuthService_ForgotPassword
     (StoreAuthService [Op_CreateEmailVerificationToken] example_cfg 5)
     (example_env 5) ''c@x'' (example_users, example_sessions)
   = (None,
      (example_users\<lparr>reset_tokens :=
         \<lparr>password_reset_token.UserID = ''u3'', Token = ''r1'',
          ExpiresAt = 5 + DefaultResetTokenDuration, Used = False, CreatedAt = 5\<rparr>
         # reset_tokens example_users\<rparr>, example_sessions)) \<and>
   fst (AuthHandlers_ResendVerification
     (StoreAuthService [Op_CreateEmailVerificationToken] example_cfg 5)
     (\<lambda>r. None) (example_env 5) \<lparr>userClaimsKey = None\<rparr>
     (example_request [] (JSONFor \<lparr>resend_verification_request.Email = ''c@x''\<rparr>) [])
     (example_users, example_sessions))
   = successResponse StatusOK (MessageBody
       ''if the email exists and is not verified, a verification email has been sent'') \<and>
   fst (AuthHandlers_ForgotPassword
     (StoreAuthService [Op_CreateEmailVerificationToken] example_cfg 5)
     (\<lambda>r. None) (example_env 5) \<lparr>userClaimsKey = None\<rparr>
     (example_request [] (JSONFor \<lparr>forgot_password_request.Email = ''a@x''\<rparr>) [])
     (example_users, example_sessions))
   = successResponse StatusOK
       (MessageBody ''if the email exists, a password reset link has been sent'')"
proof -
  let ?s = "StoreAuthService [Op_CreateEmailVerificationToken] example_cfg 5"
  let ?e = "example_env 5"
  let ?req = "\<lparr>register_request.Email = ''d@x'', Password = ''pw4'', Name = ''Dan''\<rparr>"
  let ?us1 = "example_users\<lparr>users := (example_new_user, ''#pw4'') # users example_users\<rparr>"
  let ?err = "Wrapped ''failed to store verification token'' storage_failure"
  let ?rreq = "example_request [] (JSONFor \<lparr>resend_verification_request.Email = ''c@x''\<rparr>) []"
  let ?freq = "example_request [] (JSONFor \<lparr>forgot_password_request.Email = ''a@x''\<rparr>) []"
  have a: "GetUserByEmail (userRepo ?s) example_users (register_request.Email ?req)
             = Inl Repo_ErrUserNotFound \<and>
           hashPassword ?e (register_request.Password ?req) = Inr ''#pw4'' \<and>
           example_new_user =
             \<lparr>user.ID = NewUUID ?e, Email = register_request.Email ?req,
              Name = register_request.Name ?req, IsVerified = False, IsActive = True,
              Roles = [RoleUser], CreatedAt = Now ?e 0, UpdatedAt = Now ?e 1,
              LastLoginAt = None\<rparr> \<and>
           CreateUser (userRepo ?s) example_users example_new_user ''#pw4'' = (None, ?us1) \<and>
           sendVerificationEmail ?s ?e ?us1 example_new_user = (Some ?err, ?us1)"
    by (simp add: resend_eval hashPassword_def example_new_user_def Store_CreateUser_def)
  have b: "GetUserByEmail (userRepo ?s) example_users ''c@x'' = Inr carol \<and>
           \<not> IsVerified carol \<and>
           sendVerificationEmail ?s ?e example_users carol = (Some ?err, example_users)"
    by (simp add: resend_eval)
  let ?us3 = "example_users\<lparr>reset_tokens :=
         \<lparr>password_reset_token.UserID = ''u3'', Token = ''r1'',
          ExpiresAt = 5 + DefaultResetTokenDuration, Used = False, CreatedAt = 5\<rparr>
         # reset_tokens example_users\<rparr>"
  have b': "generateSecureToken ?e = Inr ''r1'' \<and>
            CreatePasswordResetToken (userRepo ?s) example_users (user.ID carol) ''r1''
              DefaultResetTokenDuration = (None, ?us3)"
    by (simp add: resend_eval Store_CreatePasswordResetToken_def)
  have c: "Body ?rreq = JSONFor \<lparr>resend_verification_request.Email = ''c@x''\<rparr> \<and>
           (\<lambda>r::resend_verification_request. None::error option)
             \<lparr>resend_verification_request.Email = ''c@x''\<rparr> = None"
    by (simp add: example_request_def)
  have d: "Body ?freq = JSONFor \<lparr>forgot_password_request.Email = ''a@x''\<rparr> \<and>
           (\<lambda>r::forgot_password_request. None::error option)
             \<lparr>forgot_password_request.Email = ''a@x''\<rparr> = None"
    by (simp add: example_request_def)
  from a b b' c d
    C7_email_dispatch_failure
      [where s = ?s and us = example_users and ss = example_sessions and e = ?e
         and req = ?req and h = "''#pw4''" and usr = example_new_user
         and ?us1.0 = ?us1 and ?us2.0 = ?us1 and err = ?err
         and email = "''c@x''" and usr' = carol and ?us4.0 = example_users
         and resetToken = "''r1''" and ?us3.0 = ?us3
         and rreq = ?rreq and r = "\<lparr>resend_verification_request.Email = ''c@x''\<rparr>"
         and rvalidator = "\<lambda>r. None" and cx = "\<lparr>userClaimsKey = None\<rparr>"
         and st = "(example_users, example_sessions)"
         and freq = ?freq and f = "\<lparr>forgot_password_request.Email = ''a@x''\<rparr>"
         and fvalidator = "\<lambda>r. None"]
  show ?thesis by blast
qed

section \<open>Login followed by refresh (C8)\<close>

lemma Store_GetUser_after_UpdateLastLogin:
  assumes "Store_GetUser [] us uid = Inr usr"
      and "Op_GetUser \<notin> set faults2"
  shows "Store_GetUser faults2 (snd (Store_UpdateLastLogin faults us uid t)) uid
           = Inr (if Op_UpdateLastLogin \<in> set faults then usr
                  else usr\<lparr>LastLoginAt := Some t\<rparr>)"
proof (cases "Op_UpdateLastLogin \<in> set faults")
  case True
  with assms show ?thesis
    by (simp add: Store_GetUser_def Store_UpdateLastLogin_def)
next
  case False
  let ?f = "\<lambda>row. if user.ID (fst row) = uid
                   then ((fst row)\<lparr>LastLoginAt := Some t\<rparr>, snd row) else row"
  let ?P = "\<lambda>row. user.ID (fst row) = uid"
  from assms(1) obtain row where row: "find ?P (users us) = Some row" "fst row = usr"
    by (auto simp: Store_GetUser_def split: option.splits)
  then have "?P row" by (auto simp: find_Some_iff)
  moreover have "find ?P (map ?f (users us)) = map_option ?f (find ?P (users us))"
    by (rule find_map_keep) simp
  ultimately show ?thesis using row False assms(2)
    by (simp add: Store_GetUser_def Store_UpdateLastLogin_def)
qed

text \<open>
  C8, as the code has it, over the stored repositories. The email is registered to an
  active, verified user whose row is the one its id finds, the password verifies against
  the stored hash, the user id and the fresh UUID are non-empty strings, and the
  repository operations that \<open>Login\<close> and \<open>RefreshToken\<close> need do not fail (the write of
  the last login may fail: \<open>Login\<close> ignores that). Then \<open>Login\<close> succeeds and creates one
  session, with the fresh UUID as its id. If \<open>RefreshToken\<close> with the returned refresh
  token is then made while the clock that \<open>jwt.Parse\<close> reads is before the token's \<open>exp\<close>
  and the clock that \<open>IsExpired\<close> reads is not past the session's \<open>ExpiresAt\<close>, it
  succeeds, writes nothing (no second session), and returns an access token and a refresh
  token that are signed with the service secret, issued at the refresh's own readings of
  the clock, and carry the id of the session the login created in their \<open>session_id\<close>
  claim.
\<close>

theorem C8_login_then_refresh:
  assumes "Op_GetUserByEmail \<notin> set f1" and "Op_GetPasswordHash \<notin> set f1"
      and "Op_CreateSession \<notin> set f1"
      and "Op_GetUser \<notin> set f2" and "Op_GetSession \<notin> set f2"
      and "Store_GetUserByEmail [] us (login_request.Email req) = Inr usr"
      and "user.IsActive usr" and "IsVerified usr" and "user.ID usr \<noteq> []"
      and "Store_GetUser [] us (user.ID usr) = Inr usr"
      and "Store_GetPasswordHash [] us (user.ID usr) = Inr h"
      and "BcryptCompare e1 h (login_request.Password req) = None"
      and "NewUUID e1 \<noteq> []"
      and "Now e2 0 < Unix (Now e1 2 + DefaultRefreshDuration) * Second"
      and "Now e2 1 \<le> Now e1 0 + DefaultRefreshDuration"
  shows "let sess = \<lparr>session.ID = NewUUID e1, UserID = user.ID usr, Token = [],
                     DeviceID = login_request.DeviceID req, UserAgent = [], IPAddress = [],
                     CreatedAt = Now e1 0, ExpiresAt = Now e1 0 + DefaultRefreshDuration,
                     IsActive = True\<rparr>;
             us1 = snd (Store_UpdateLastLogin f1 us (user.ID usr) (Now e1 3));
             usr1 = (if Op_UpdateLastLogin \<in> set f1 then usr
                     else usr\<lparr>LastLoginAt := Some (Now e1 3)\<rparr>);
             access = (\<lambda>t. Encoded \<lparr>Method = SigningMethodHMAC, SignedWith = JWTSecret c,
                        Claims = [(''sub'', CStr (user.ID usr)),
                                  (''email'', CStr (user.Email usr)),
                                  (''name'', CStr (user.Name usr)),
                                  (''roles'', CArr (map CStr (user.Roles usr))),
                                  (''session_id'', CStr (NewUUID e1)),
                                  (''iat'', CNum (Unix t)),
                                  (''exp'', CNum (Unix (t + DefaultSessionDuration))),
                                  (''type'', CStr TokenTypeAccess)]\<rparr>);
             refresh = (\<lambda>t. Encoded \<lparr>Method = SigningMethodHMAC, SignedWith = JWTSecret c,
                        Claims = [(''sub'', CStr (user.ID usr)),
                                  (''session_id'', CStr (NewUUID e1)),
                                  (''iat'', CNum (Unix t)),
                                  (''exp'', CNum (Unix (t + DefaultRefreshDuration))),
                                  (''type'', CStr TokenTypeRefresh)]\<rparr>)
         in AuthService_Login (StoreAuthService f1 c t1) e1 req (us, ss)
              = (Inr \<lparr>AccessToken = access (Now e1 1), RefreshToken = refresh (Now e1 2),
                      ExpiresIn = DefaultSessionDuration div Second,
                      User = SanitizeUser usr\<rparr>,
                 (us1, sess # ss)) \<and>
            AuthService_RefreshToken (StoreAuthService f2 c t2) e2 (refresh (Now e1 2))
                (us1, sess # ss)
              = (Inr \<lparr>AccessToken = access (Now e2 2), RefreshToken = refresh (Now e2 3),
                      ExpiresIn = DefaultSessionDuration div Second,
                      User = SanitizeUser usr1\<rparr>,
                 (us1, sess # ss))"
proof -
  define sess where "sess =
    \<lparr>session.ID = NewUUID e1, UserID = user.ID usr, Token = [],
     DeviceID = login_request.DeviceID req, UserAgent = [], IPAddress = [],
     CreatedAt = Now e1 0, ExpiresAt = Now e1 0 + DefaultRefreshDuration, IsActive = True\<rparr>"
  define us1 where "us1 = snd (Store_UpdateLastLogin f1 us (user.ID usr) (Now e1 3))"
  define usr1 where "usr1 = (if Op_UpdateLastLogin \<in> set f1 then usr
                             else usr\<lparr>LastLoginAt := Some (Now e1 3)\<rparr>)"
  define cs where "cs = [(''sub'', CStr (user.ID usr)), (''session_id'', CStr (NewUUID e1)),
       (''iat'', CNum (Unix (Now e1 2))),
       (''exp'', CNum (Unix (Now e1 2 + DefaultRefreshDuration))),
       (''type'', CStr TokenTypeRefresh)]"
  define rt where "rt = \<lparr>Method = SigningMethodHMAC, SignedWith = JWTSecret c, Claims = cs\<rparr>"
  have login: "AuthService_Login (StoreAuthService f1 c t1) e1 req (us, ss)
     = (Inr \<lparr>AccessToken = Encoded \<lparr>Method = SigningMethodHMAC, SignedWith = JWTSecret c,
                Claims = [(''sub'', CStr (user.ID usr)), (''email'', CStr (user.Email usr)),
                          (''name'', CStr (user.Name usr)),
                          (''roles'', CArr (map CStr (user.Roles usr))),
                          (''session_id'', CStr (NewUUID e1)),
                          (''iat'', CNum (Unix (Now e1 1))),
                          (''exp'', CNum (Unix (Now e1 1 + DefaultSessionDuration))),
                          (''type'', CStr TokenTypeAccess)]\<rparr>,
             RefreshToken = Encoded rt,
             ExpiresIn = DefaultSessionDuration div Second, User = SanitizeUser usr\<rparr>,
        (us1, sess # ss))"
    using assms(1,2,3,6,7,8,11,12)
    by (simp add: AuthService_Login_def StoreAuthService_def StoreUserRepository_def
        StoreSessionRepository_def Store_GetUserByEmail_def Store_GetPasswordHash_def
        verifyPassword_def createSession_def Store_CreateSession_def generateAccessToken_def
        generateRefreshToken_def SignedString_def sess_def us1_def rt_def cs_def Let_def
        case_prod_beta)
  have "exp_ok cs (Now e2 0)"
    by (rule exp_ok_issued [OF _ assms(14)]) (simp add: cs_def)
  moreover have "nbf_ok cs (Now e2 0)"
    by (simp add: nbf_ok_def cs_def)
  ultimately have "jwt_Parse (Encoded rt) (keyFunc c) (Now e2 0) = Inr rt"
    by (simp add: jwt_Parse_def keyFunc_def rt_def)
  then have parse: "parseRefreshToken c (Now e2 0) (Encoded rt) =
      Inr \<lparr>token_claims.UserID = user.ID usr, Email = [], Name = [], Roles = [],
           SessionID = NewUUID e1, IssuedAt = 0, ExpiresAt = 0\<rparr>"
    using assms(9,13)
    by (simp add: parseRefreshToken_def rt_def cs_def str_claim_def)
  have getuser: "Store_GetUser f2 us1 (user.ID usr) = Inr usr1"
    unfolding us1_def usr1_def
    by (rule Store_GetUser_after_UpdateLastLogin [OF assms(10) assms(4)])
  have active: "user.IsActive usr1"
    and same: "user.ID usr1 = user.ID usr" "user.Email usr1 = user.Email usr"
      "user.Name usr1 = user.Name usr" "user.Roles usr1 = user.Roles usr"
    using assms(7) by (simp_all add: usr1_def)
  have getsess: "Store_GetSession f2 (sess # ss) (NewUUID e1) = Inr sess"
    using assms(5) by (simp add: Store_GetSession_def sess_def)
  have live: "\<not> IsExpired (Now e2 1) sess"
    using assms(15) by (simp add: IsExpired_def After_def sess_def)
  have refresh: "AuthService_RefreshToken (StoreAuthService f2 c t2) e2 (Encoded rt)
        (us1, sess # ss)
     = (Inr \<lparr>AccessToken = Encoded \<lparr>Method = SigningMethodHMAC, SignedWith = JWTSecret c,
                Claims = [(''sub'', CStr (user.ID usr)), (''email'', CStr (user.Email usr)),
                          (''name'', CStr (user.Name usr)),
                          (''roles'', CArr (map CStr (user.Roles usr))),
                          (''session_id'', CStr (NewUUID e1)),
                          (''iat'', CNum (Unix (Now e2 2))),
                          (''exp'', CNum (Unix (Now e2 2 + DefaultSessionDuration))),
                          (''type'', CStr TokenTypeAccess)]\<rparr>,
             RefreshToken = Encoded \<lparr>Method = SigningMethodHMAC, SignedWith = JWTSecret c,
                Claims = [(''sub'', CStr (user.ID usr)), (''session_id'', CStr (NewUUID e1)),
                          (''iat'', CNum (Unix (Now e2 3))),
                          (''exp'', CNum (Unix (Now e2 3 + DefaultRefreshDuration))),
                          (''type'', CStr TokenTypeRefresh)]\<rparr>,
             ExpiresIn = DefaultSessionDuration div Second, User = SanitizeUser usr1\<rparr>,
        (us1, sess # ss))"
    using parse getuser getsess live active same
    by (simp add: AuthService_RefreshToken_def StoreAuthService_def StoreUserRepository_def
        StoreSessionRepository_def generateAccessToken_def generateRefreshToken_def
        SignedString_def sess_def)
  from login refresh show ?thesis
    by (simp add: Let_def sess_def us1_def usr1_def rt_def cs_def)
qed

text \<open>
  C8 as stated fails when the refresh comes too late or storage fails: \<open>alice\<close> logs in
  at time 5; with the refresh token that login returned, a refresh at second
  700000, after the token's \<open>exp\<close> of 604800, is refused with \<open>ErrInvalidToken\<close>, and a refresh right after the login during which
  the session lookup fails returns a wrapped storage error.
\<close>

theorem C8_late_or_failing_refresh_counterexample:
  "\<not> isl (fst (example_login ''a@x'' ''pw1'')) \<and>
   fst (AuthService_RefreshToken (StoreAuthService [] example_cfg (700000 * Second))
          (example_env (700000 * Second))
          (auth_response.RefreshToken (projr (fst (example_login ''a@x'' ''pw1''))))
          (snd (example_login ''a@x'' ''pw1'')))
     = Inl ErrInvalidToken \<and>
   fst (AuthService_RefreshToken (StoreAuthService [Op_GetSession] example_cfg 10)
          (example_env 10)
          (auth_response.RefreshToken (projr (fst (example_login ''a@x'' ''pw1''))))
          (snd (example_login ''a@x'' ''pw1'')))
     = Inl (Wrapped ''failed to get session'' storage_failure)"
  by (simp add: login_eval createSession_def Store_CreateSession_def Store_UpdateLastLogin_def
      generateAccessToken_def generateRefreshToken_def SignedString_def TokenTypeRefresh_def
      AuthService_RefreshToken_def parseRefreshToken_def jwt_Parse_def keyFunc_def exp_ok_def
      nbf_ok_def str_claim_def example_cfg_def storage_failure_def time_defs Let_def)

text \<open>
  The theorem applies: \<open>alice\<close> logs in with her password at time 5 while the write of
  the last login fails, which creates session \<open>s2\<close>, and refreshes 100 seconds into the
  epoch with the refresh token she got.
\<close>

theorem C8_login_then_refresh_witness:
  "let sess = \<lparr>session.ID = ''s2'', UserID = ''u1'', Token = [], DeviceID = ''d'',
               UserAgent = [], IPAddress = [], CreatedAt = 5,
               ExpiresAt = 5 + DefaultRefreshDuration, IsActive = True\<rparr>;
       access = (\<lambda>iat exp. Encoded \<lparr>Method = SigningMethodHMAC, SignedWith = ''key'',
                  Claims = [(''sub'', CStr ''u1''), (''email'', CStr ''a@x''),
                            (''name'', CStr ''Alice''), (''roles'', CArr [CStr ''user'']),
                            (''session_id'', CStr ''s2''), (''iat'', CNum iat),
                            (''exp'', CNum exp), (''type'', CStr ''access'')]\<rparr>);
       refresh = (\<lambda>iat exp. Encoded \<lparr>Method = SigningMethodHMAC, SignedWith = ''key'',
                  Claims = [(''sub'', CStr ''u1''), (''session_id'', CStr ''s2''),
                            (''iat'', CNum iat), (''exp'', CNum exp),
                            (''type'', CStr ''refresh'')]\<rparr>)
   in AuthService_Login (StoreAuthService [Op_UpdateLastLogin] example_cfg 5) (example_env 5)
        \<lparr>login_request.Email = ''a@x'', Password = ''pw1'', DeviceID = ''d''\<rparr>
        (example_users, example_sessions)
        = (Inr \<lparr>AccessToken = access 0 900, RefreshToken = refresh 0 604800,
                ExpiresIn = 900, User = SanitizeUser alice\<rparr>,
           (example_users, sess # example_sessions)) \<and>
      AuthService_RefreshToken (StoreAuthService [] example_cfg (100 * Second))
        (example_env (100 * Second)) (refresh 0 604800)
        (example_users, sess # example_sessions)
        = (Inr \<lparr>AccessToken = access 100 1000, RefreshToken = refresh 100 604900,
                ExpiresIn = 900, User = SanitizeUser alice\<rparr>,
           (example_users, sess # example_sessions))"
proof -
  let ?req = "\<lparr>login_request.Email = ''a@x'', Password = ''pw1'', DeviceID = ''d''\<rparr>"
  let ?e1 = "example_env 5"
  let ?e2 = "example_env (100 * Second)"
  have f1: "Op_GetUserByEmail \<notin> set [Op_UpdateLastLogin]"
      "Op_GetPasswordHash \<notin> set [Op_UpdateLastLogin]"
      "Op_CreateSession \<notin> set [Op_UpdateLastLogin]"
    by simp_all
  have f2: "Op_GetUser \<notin> set []" "Op_GetSession \<notin> set []"
    by simp_all
  have h1: "Store_GetUserByEmail [] example_users (login_request.Email ?req) = Inr alice"
    by (simp add: Store_GetUserByEmail_def example_users_def alice_def)
  have h2: "user.IsActive alice" and h3: "IsVerified alice" and h4: "user.ID alice \<noteq> []"
    by (simp_all add: alice_def)
  have h5: "Store_GetUser [] example_users (user.ID alice) = Inr alice"
    by (simp add: Store_GetUser_def example_users_def alice_def)
  have h6: "Store_GetPasswordHash [] example_users (user.ID alice) = Inr ''#pw1''"
    by (simp add: Store_GetPasswordHash_def example_users_def alice_def)
  have h7: "BcryptCompare ?e1 ''#pw1'' (login_request.Password ?req) = None"
    by (simp add: example_env_def)
  have h8: "NewUUID ?e1 \<noteq> []"
    by (simp add: example_env_def)
  have h9: "Now ?e2 0 < Unix (Now ?e1 2 + DefaultRefreshDuration) * Second"
    by (simp add: example_env_def time_defs)
  have h10: "Now ?e2 1 \<le> Now ?e1 0 + DefaultRefreshDuration"
    by (simp add: example_env_def time_defs)
  have upd: "snd (Store_UpdateLastLogin [Op_UpdateLastLogin] example_users ''u1'' 8)
               = example_users"
    by (simp add: Store_UpdateLastLogin_def)
  from C8_login_then_refresh [OF f1 f2 h1 h2 h3 h4 h5 h6 h7 h8 h9 h10,
      of example_cfg 5 example_sessions "100 * Second"] upd
  show ?thesis
    by (simp add: Let_def example_env_def example_cfg_def alice_def TokenTypeAccess_def
        TokenTypeRefresh_def RoleUser_def time_defs)
qed

section \<open>Password change leaves the sessions alone (C9)\<close>

text \<open>
  C9. \<open>ChangePassword\<close> never calls the session repository: whatever it returns, the state
  of the session repository is the one it started from. When it succeeds, the state of the
  user repository is the one the single write \<open>UpdatePassword\<close> of the new hash for that
  user leaves.
\<close>

theorem C9_ChangePassword_frame:
  assumes "AuthService_ChangePassword s e userID currentPassword newPassword (us, ss)
             = (r, (us', ss'))"
  shows "ss' = ss \<and>
         (r = None \<longrightarrow>
            (\<exists>h. verifyPassword s e us userID currentPassword = None \<and>
                 hashPassword e newPassword = Inr h \<and>
                 UpdatePassword (userRepo s) us userID h = (None, us')))"
  using assms
  by (auto simp: AuthService_ChangePassword_def
      split: option.splits sum.splits prod.splits)

text \<open>
  C9 on the example store: \<open>alice\<close> changes her password; her stored hash changes and
  nothing else does.
\<close>

theorem C9_ChangePassword_frame_witness:
  "AuthService_ChangePassword (StoreAuthService [] example_cfg 5) (example_env 5)
     ''u1'' ''pw1'' ''pw7'' (example_users, example_sessions)
   = (None, (example_users\<lparr>users := [(alice, ''#pw7''), (bob, ''#pw2''), (carol, ''#pw3'')]\<rparr>,
             example_sessions)) \<and>
   UpdatePassword (userRepo (StoreAuthService [] example_cfg 5)) example_users
     ''u1'' ''#pw7''
   = (None, example_users\<lparr>users := [(alice, ''#pw7''), (bob, ''#pw2''), (carol, ''#pw3'')]\<rparr>)"
proof -
  let ?s = "StoreAuthService [] example_cfg 5"
  let ?us' = "example_users\<lparr>users := [(alice, ''#pw7''), (bob, ''#pw2''), (carol, ''#pw3'')]\<rparr>"
  have h: "AuthService_ChangePassword ?s (example_env 5) ''u1'' ''pw1'' ''pw7''
             (example_users, example_sessions) = (None, (?us', example_sessions))"
    by (simp add: AuthService_ChangePassword_def verifyPassword_def hashPassword_def store_defs
        Store_GetPasswordHash_def Store_UpdatePassword_def)
  have g: "hashPassword (example_env 5) ''pw7'' = Inr ''#pw7''"
    by (simp add: hashPassword_def example_env_def)
  from C9_ChangePassword_frame [OF h] g
  have "UpdatePassword (userRepo ?s) example_users ''u1'' ''#pw7'' = (None, ?us')"
    by auto
  with h show ?thesis by (intro conjI)
qed

text \<open>
  In contrast, a successful \<open>ResetPassword\<close> leaves the session repository in the state
  \<open>DeactivateUserSessions\<close> for the token's user gives. And over the stored repositories
  a successful \<open>ChangePassword\<close> changes the password hash in the rows of that user and
  nothing else.
\<close>

lemma ResetPassword_calls_DeactivateUserSessions:
  assumes "AuthService_ResetPassword s e token newPassword (us, ss) = (None, (us', ss'))"
  shows "\<exists>uid. VerifyPasswordResetToken (userRepo s) us token = Inr uid \<and>
           ss' = snd (DeactivateUserSessions (sessionRepo s) ss uid)"
  using assms
  by (auto simp: AuthService_ResetPassword_def
      split: sum.splits if_splits prod.splits option.splits)

lemma ChangePassword_Store_rows:
  assumes "AuthService_ChangePassword (StoreAuthService faults c t) e uid cur new (us, ss)
             = (None, (us', ss'))"
  shows "\<exists>h. BcryptGenerate e new = Inr h \<and>
           us' = us\<lparr>users := map (\<lambda>row. if user.ID (fst row) = uid then (fst row, h) else row)
                                 (users us)\<rparr> \<and>
           ss' = ss"
  using assms
  by (auto simp: AuthService_ChangePassword_def StoreAuthService_def StoreUserRepository_def
      hashPassword_def Store_UpdatePassword_def
      split: option.splits sum.splits prod.splits if_splits)

section \<open>Logout with a body that is not JSON (C10)\<close>

text \<open>
  C10. For an authenticated logout request whose body is non-empty and not valid JSON, the
  handler does not answer 400: the decoding error is only logged, the session id stays
  empty, and the handler calls \<open>Logout\<close> with the empty session id, which calls
  \<open>DeactivateUserSessions\<close> for the requesting user. The answer is 200 when that write
  succeeds and 500 when it fails, and the state of the session repository is the one that
  write leaves.
\<close>

theorem C10_Logout_invalid_body:
  assumes "GetUserClaims cx = Some uc" and "Body req = NotJSON"
  shows "AuthHandlers_Logout s cx req (us, ss) =
           (case DeactivateUserSessions (sessionRepo s) ss (user_claims.UserID uc) of
              (Some err, ss1) \<Rightarrow>
                (errorResponse StatusInternalServerError ''logout failed'', (us, ss1))
            | (None, ss1) \<Rightarrow>
                (successResponse StatusOK (MessageBody ''logout successful''), (us, ss1)))
         \<and> StatusCode (fst (AuthHandlers_Logout s cx req (us, ss))) \<noteq> StatusBadRequest"
  using assms
  by (auto simp: AuthHandlers_Logout_def json_Unmarshal_def AuthService_Logout_def
      errorResponse_def successResponse_def StatusBadRequest_def StatusOK_def
      StatusInternalServerError_def
      split: option.splits prod.splits)

text \<open>
  C10 on the example store: user \<open>u1\<close> sends a logout whose body is not JSON; the answer
  is 200 and both sessions of \<open>u1\<close> are inactive afterwards, the session of \<open>u2\<close> is not
  touched.
\<close>

theorem C10_Logout_invalid_body_witness:
  "AuthHandlers_Logout (StoreAuthService [] example_cfg 5) example_ctx
     (example_request [] NotJSON ''/v1/auth/logout'') (example_users, example_sessions)
   = (successResponse StatusOK (MessageBody ''logout successful''),
      (example_users,
       [example_session ''s1'' ''u1'' False, example_session ''s0'' ''u1'' False,
        example_session ''s3'' ''u2'' True]))"
proof -
  have h1: "GetUserClaims example_ctx
              = Some \<lparr>user_claims.UserID = ''u1'', Email = ''a@x'', Roles = [RoleUser]\<rparr>"
    by (simp add: GetUserClaims_def example_ctx_def)
  have h2: "Body (example_request [] NotJSON ''/v1/auth/logout'' :: logout_request request)
              = NotJSON"
    by (simp add: example_request_def)
  from C10_Logout_invalid_body [OF h1 h2,
      of "StoreAuthService [] example_cfg 5" example_users example_sessions]
  show ?thesis
    by (simp add: StoreAuthService_def StoreSessionRepository_def
        Store_DeactivateUserSessions_def example_sessions_def example_session_def)
qed

text \<open>
  A body that is valid JSON with a string \<open>session_id\<close> deactivates that session only, and
  an empty body, like a body that is not JSON, deactivates every session of the user.
\<close>

lemma Logout_handler_session_id:
  assumes "GetUserClaims cx = Some uc"
      and "Body req = JSONFor \<lparr>logout_request.SessionID = sid\<rparr>" and "sid \<noteq> []"
  shows "snd (AuthHandlers_Logout s cx req (us, ss))
           = (us, snd (DeactivateSession (sessionRepo s) ss sid))"
  using assms
  by (auto simp: AuthHandlers_Logout_def json_Unmarshal_def AuthService_Logout_def
      split: option.splits prod.splits)

lemma Logout_handler_empty_body:
  assumes "GetUserClaims cx = Some uc" and "Body req = EmptyBody"
  shows "snd (AuthHandlers_Logout s cx req (us, ss))
           = (us, snd (DeactivateUserSessions (sessionRepo s) ss (user_claims.UserID uc)))"
  using assms
  by (auto simp: AuthHandlers_Logout_def AuthService_Logout_def
      split: option.splits prod.splits)

end
